theory Spec2Isabelle
  imports Complex_Main "HOL-Library.Word"
begin

section \<open>Values shared by the tool handlers\<close>

text \<open>
  A tool call carries \<open>request.Params.Arguments\<close>, a Go \<open>map[string]any\<close> decoded from
  JSON. A JSON number arrives as a \<open>float64\<close>; every finite \<open>float64\<close> is a rational, so a
  number is modelled by its rational value.
\<close>

datatype any =
    JNull
  | JBool bool
  | JNumber rat
  | JString string
  | JArray "any list"
  | JObject "(string \<times> any) list"

type_synonym arguments = "string \<Rightarrow> any option"

text \<open>
  The comma-ok type assertions \<open>v, ok := args[k].(T)\<close>: on a missing key or a value of
  another type they give the zero value of \<open>T\<close> and \<open>ok = false\<close>.
\<close>

definition as_string :: "any option \<Rightarrow> string \<times> bool" where
  "as_string v = (case v of Some (JString s) \<Rightarrow> (s, True) | _ \<Rightarrow> ([], False))"

definition as_bool :: "any option \<Rightarrow> bool \<times> bool" where
  "as_bool v = (case v of Some (JBool b) \<Rightarrow> (b, True) | _ \<Rightarrow> (False, False))"

definition as_float64 :: "any option \<Rightarrow> rat \<times> bool" where
  "as_float64 v = (case v of Some (JNumber x) \<Rightarrow> (x, True) | _ \<Rightarrow> (0, False))"

subsection \<open>The functions of package \<open>strings\<close> and \<open>strconv\<close> that the handlers call\<close>

text \<open>
  Strings are byte lists, in UTF-8 as Go reads them. \<open>unicode.IsSpace\<close> holds of the
  runes U+0009 to U+000D, U+0020, U+0085, U+00A0, U+1680, U+2000 to U+200A, U+2028,
  U+2029, U+202F, U+205F and U+3000; these are their encodings. A string starts (ends)
  with a white-space rune exactly when it starts (ends) with one of the encodings: a
  byte that is not decodable counts as a rune of width one that is not white space, and
  no encoding begins with a continuation byte.
\<close>

definition white_space :: "string list" where
  "white_space =
     [[CHR 0x09], [CHR 0x0A], [CHR 0x0B], [CHR 0x0C], [CHR 0x0D], [CHR '' ''],
      [CHR 0xC2, CHR 0x85], [CHR 0xC2, CHR 0xA0],
      [CHR 0xE1, CHR 0x9A, CHR 0x80],
      [CHR 0xE2, CHR 0x80, CHR 0x80], [CHR 0xE2, CHR 0x80, CHR 0x81],
      [CHR 0xE2, CHR 0x80, CHR 0x82], [CHR 0xE2, CHR 0x80, CHR 0x83],
      [CHR 0xE2, CHR 0x80, CHR 0x84], [CHR 0xE2, CHR 0x80, CHR 0x85],
      [CHR 0xE2, CHR 0x80, CHR 0x86], [CHR 0xE2, CHR 0x80, CHR 0x87],
      [CHR 0xE2, CHR 0x80, CHR 0x88], [CHR 0xE2, CHR 0x80, CHR 0x89],
      [CHR 0xE2, CHR 0x80, CHR 0x8A],
      [CHR 0xE2, CHR 0x80, CHR 0xA8], [CHR 0xE2, CHR 0x80, CHR 0xA9],
      [CHR 0xE2, CHR 0x80, CHR 0xAF],
      [CHR 0xE2, CHR 0x81, CHR 0x9F],
      [CHR 0xE3, CHR 0x80, CHR 0x80]]"

text \<open>
  The width in bytes of the white-space rune a string starts with, and of the one it ends
  with; 0 when there is none.
\<close>

definition leadingSpace :: "string \<Rightarrow> nat" where
  "leadingSpace s =
     (case find (\<lambda>e. take (length e) s = e) white_space of
        None \<Rightarrow> 0
      | Some e \<Rightarrow> length e)"

definition trailingSpace :: "string \<Rightarrow> nat" where
  "trailingSpace s =
     (case find (\<lambda>e. length e \<le> length s \<and> drop (length s - length e) s = e) white_space of
        None \<Rightarrow> 0
      | Some e \<Rightarrow> length e)"

text \<open>\<open>strings.TrimSpace\<close>: all leading and trailing white space removed.\<close>

function trimLeft :: "string \<Rightarrow> string" where
  "trimLeft s = (if leadingSpace s = 0 then s else trimLeft (drop (leadingSpace s) s))"
  by pat_completeness auto
termination
proof (relation "measure length")
  show "wf (measure length)" by simp
next
  fix s :: string
  assume some: "leadingSpace s \<noteq> 0"
  have "leadingSpace [] = 0"
    by (simp add: leadingSpace_def white_space_def)
  with some have "s \<noteq> []" by auto
  with some show "(drop (leadingSpace s) s, s) \<in> measure length" by simp
qed

function trimRight :: "string \<Rightarrow> string" where
  "trimRight s =
     (if trailingSpace s = 0 then s else trimRight (take (length s - trailingSpace s) s))"
  by pat_completeness auto
termination
proof (relation "measure length")
  show "wf (measure length)" by simp
next
  fix s :: string
  assume some: "trailingSpace s \<noteq> 0"
  have "trailingSpace [] = 0"
    by (simp add: trailingSpace_def white_space_def)
  with some have "s \<noteq> []" by auto
  with some show "(take (length s - trailingSpace s) s, s) \<in> measure length" by simp
qed

declare trimLeft.simps [simp del] trimRight.simps [simp del]

definition TrimSpace :: "string \<Rightarrow> string" where
  "TrimSpace s = trimRight (trimLeft s)"

text \<open>
  \<open>strings.Split(s, " ")\<close>: every single space separates two pieces, so two spaces in
  a row give an empty piece, and the empty string gives one empty piece.
\<close>

fun split_acc :: "string \<Rightarrow> string \<Rightarrow> string list" where
  "split_acc acc [] = [rev acc]"
| "split_acc acc (c # cs) =
     (if c = CHR '' '' then rev acc # split_acc [] cs else split_acc (c # acc) cs)"

definition Split :: "string \<Rightarrow> string list" where
  "Split s = split_acc [] s"

text \<open>
  \<open>strings.Fields(s)\<close>: the maximal runs of bytes between white-space runes. The
  handler does not call it; the repository's test of the word-count rule does.
\<close>

function fields_acc :: "string \<Rightarrow> string \<Rightarrow> string list" where
  "fields_acc acc s =
     (if s = [] then (if acc = [] then [] else [rev acc])
      else if leadingSpace s \<noteq> 0 then
        (if acc = [] then fields_acc [] (drop (leadingSpace s) s)
         else rev acc # fields_acc [] (drop (leadingSpace s) s))
      else fields_acc (hd s # acc) (tl s))"
  by pat_completeness auto
termination
  by (relation "measure (\<lambda>(acc, s). length s)") auto

declare fields_acc.simps [simp del]

definition Fields :: "string \<Rightarrow> string list" where
  "Fields s = fields_acc [] s"

definition HasPrefix :: "string \<Rightarrow> string \<Rightarrow> bool" where
  "HasPrefix s p = (take (length p) s = p)"

text \<open>\<open>strconv.ParseBool\<close>, as value and success flag; the value is false on failure.\<close>

definition ParseBool :: "string \<Rightarrow> bool \<times> bool" where
  "ParseBool s =
     (if s \<in> set [''1'', ''t'', ''T'', ''TRUE'', ''true'', ''True''] then (True, True)
      else if s \<in> set [''0'', ''f'', ''F'', ''FALSE'', ''false'', ''False''] then (False, True)
      else (False, False))"

subsection \<open>Errors\<close>

text \<open>
  A Go error is a message, one of the two errors of a context, or an error built by
  \<open>fmt.Errorf("...: %w", err)\<close>, which keeps the wrapped error reachable.
\<close>

datatype ctx_error = Canceled | DeadlineExceeded

datatype go_error =
    ErrorString string
  | ContextError ctx_error
  | Wrapf string go_error

fun Error :: "go_error \<Rightarrow> string" where
  "Error (ErrorString s) = s"
| "Error (ContextError Canceled) = ''context canceled''"
| "Error (ContextError DeadlineExceeded) = ''context deadline exceeded''"
| "Error (Wrapf msg e) = msg @ Error e"

fun Unwrap :: "go_error \<Rightarrow> go_error option" where
  "Unwrap (Wrapf msg e) = Some e"
| "Unwrap e = None"

subsection \<open>Time and the request context\<close>

text \<open>
  Instants and durations are milliseconds on one clock. \<open>lnccontext.New(parent, op, timeout)\<close>
  derives a context that is done when the parent is done or when the timeout has passed,
  whichever is first; \<open>Done\<close> stays closed from that instant on.
\<close>

record RequestContext =
  done_at :: nat
  ctx_err :: ctx_error

definition New :: "(nat \<times> ctx_error) option \<Rightarrow> nat \<Rightarrow> nat \<Rightarrow> RequestContext" where
  "New parent now timeout =
     (case parent of
        None \<Rightarrow> \<lparr>done_at = now + timeout, ctx_err = DeadlineExceeded\<rparr>
      | Some (t, e) \<Rightarrow>
          (if t < now + timeout then \<lparr>done_at = t, ctx_err = e\<rparr>
           else \<lparr>done_at = now + timeout, ctx_err = DeadlineExceeded\<rparr>))"

definition Done :: "RequestContext \<Rightarrow> nat \<Rightarrow> bool" where
  "Done ctx now = (done_at ctx \<le> now)"

definition Err :: "RequestContext \<Rightarrow> go_error" where
  "Err ctx = ContextError (ctx_err ctx)"

section \<open>The connection service\<close>

type_synonym client_conn = nat

record GetInfoResponse =
  IdentityPubkey :: string
  Alias :: string
  NumActiveChannels :: "32 word"
  NumPeers :: "32 word"
  Version :: string

text \<open>
  What lies outside the process during one call: the environment variables, the caller's
  context, the key generator, the mailbox library, the node behind the tunnel. The
  connector function \<open>lndConnect\<close> returned by \<open>mailbox.NewClientWebsocketConn\<close> is
  represented by what calling it returns; \<open>None\<close> is a nil connector. The two callbacks
  registered with the mailbox fire at most once each, at the instants given here.
  The clock advances only in \<open>NewClientWebsocketConn\<close>, in the grace-period wait and in
  \<open>time.Sleep\<close>.
\<close>

record world =
  Getenv :: "string \<Rightarrow> string"
  entered_at :: nat
  parent_done :: "(nat \<times> ctx_error) option"
  NewPrivateKey :: "go_error option"
  NewClientWebsocketConn ::
    "string \<Rightarrow> string \<Rightarrow> go_error + (go_error + client_conn) option"
  dial_time :: nat
  remote_key_at :: "nat option"
  auth_at :: "nat option"
  select_prefers_done :: bool
  GetInfo :: "client_conn \<Rightarrow> go_error + GetInfoResponse"
  Close :: "client_conn \<Rightarrow> go_error option"

text \<open>The two variables the callbacks write, as the negotiation reads them at an instant.\<close>

definition remotePub_set :: "world \<Rightarrow> nat \<Rightarrow> bool" where
  "remotePub_set w now = (case remote_key_at w of None \<Rightarrow> False | Some t \<Rightarrow> t \<le> now)"

definition authReceived :: "world \<Rightarrow> nat \<Rightarrow> bool" where
  "authReceived w now = (case auth_at w of None \<Rightarrow> False | Some t \<Rightarrow> t \<le> now)"

text \<open>What a call does to the outside, in order.\<close>

datatype event =
    EvNewPrivateKey
  | EvSetInsecureSkipVerify
  | EvNewClientWebsocketConn string string
  | EvPoll nat
  | EvStatusChecker
  | EvLndConnect
  | EvGetInfo client_conn
  | EvClose client_conn
  | EvConnectionCallback client_conn

record tls_Config =
  InsecureSkipVerify :: bool

datatype wait_outcome = Aborted nat | Elapsed nat

text \<open>
  The grace period: \<open>select\<close> between \<open>time.After(3 * time.Second)\<close> and
  \<open>reqCtx.Done()\<close>. When both become ready at the same instant Go picks either.
\<close>

definition graceWait :: "world \<Rightarrow> RequestContext \<Rightarrow> nat \<Rightarrow> wait_outcome" where
  "graceWait w ctx now =
     (if done_at ctx < now + 3000 \<or> (done_at ctx = now + 3000 \<and> select_prefers_done w)
      then Aborted (max now (done_at ctx))
      else Elapsed (now + 3000))"

text \<open>
  The poll loop \<open>for time.Since(waitStart) < maxWaitTime\<close>, with the instants at which
  it looked at the context and at the flags.
\<close>

function pollLoop :: "world \<Rightarrow> RequestContext \<Rightarrow> nat \<Rightarrow> nat \<Rightarrow> nat list \<times> wait_outcome" where
  "pollLoop w ctx waitStart now =
     (if now - waitStart < 5000 then
        (if Done ctx now then ([now], Aborted now)
         else if authReceived w now \<and> remotePub_set w now then ([now], Elapsed now)
         else (case pollLoop w ctx waitStart (now + 200) of
                 (polls, r) \<Rightarrow> (now # polls, r)))
      else ([], Elapsed now))"
  by pat_completeness auto
termination
  by (relation "measure (\<lambda>(w, ctx, waitStart, now). waitStart + 5000 - now)") auto

declare pollLoop.simps [simp del]

text \<open>
  The condition under which \<open>connectToLNC\<close> replaces the TLS configuration of
  \<open>http.DefaultTransport\<close>, and what it has done to the outside once the mailbox session
  is requested.
\<close>

definition wantsInsecureTLS :: "bool \<Rightarrow> bool \<Rightarrow> string \<Rightarrow> bool" where
  "wantsInsecureTLS devMode insecure mailboxServer =
     (devMode \<or> insecure \<or> HasPrefix mailboxServer ''localhost'' \<or>
      HasPrefix mailboxServer ''127.0.0.1'')"

definition opening_events :: "bool \<Rightarrow> string \<Rightarrow> string \<Rightarrow> event list" where
  "opening_events relaxed mailboxServer pairingPhrase =
     [EvNewPrivateKey] @ (if relaxed then [EvSetInsecureSkipVerify] else []) @
     [EvNewClientWebsocketConn mailboxServer pairingPhrase]"

definition connectToLNC ::
  "world \<Rightarrow> RequestContext \<Rightarrow> nat \<Rightarrow> string \<Rightarrow> string \<Rightarrow> string \<Rightarrow> bool \<Rightarrow> bool \<Rightarrow>
   tls_Config option \<Rightarrow>
   (go_error + client_conn \<times> GetInfoResponse) \<times> event list \<times> tls_Config option" where
  "connectToLNC w reqCtx now pairingPhrase password mailboxServer devMode insecure tls =
     (case NewPrivateKey w of
        Some err \<Rightarrow>
          (Inl (Wrapf ''failed to generate private key: '' err), [EvNewPrivateKey], tls)
      | None \<Rightarrow>
          let relaxed = wantsInsecureTLS devMode insecure mailboxServer;
              tls' = (if relaxed then Some \<lparr>InsecureSkipVerify = True\<rparr> else tls);
              tr1 = opening_events relaxed mailboxServer pairingPhrase
          in
          (case NewClientWebsocketConn w mailboxServer pairingPhrase of
             Inl err \<Rightarrow>
               (Inl (Wrapf ''failed to create mailbox connection: '' err), tr1, tls')
           | Inr lndConnect \<Rightarrow>
               (case graceWait w reqCtx (now + dial_time w) of
                  Aborted t \<Rightarrow>
                    (Inl (Wrapf ''connection cancelled: '' (Err reqCtx)), tr1, tls')
                | Elapsed waitStart \<Rightarrow>
                    (case lndConnect of
                       None \<Rightarrow>
                         (Inl (ErrorString
                            ''lndConnect function not available after connection setup''),
                          tr1, tls')
                     | Some connector \<Rightarrow>
                         (case pollLoop w reqCtx waitStart waitStart of
                            (polls, Aborted t) \<Rightarrow>
                              (Inl (Wrapf ''connection cancelled: '' (Err reqCtx)),
                               tr1 @ map EvPoll polls, tls')
                          | (polls, Elapsed t) \<Rightarrow>
                              let tr2 = tr1 @ map EvPoll polls @ [EvStatusChecker, EvLndConnect]
                              in
                              (case connector of
                                 Inl err \<Rightarrow>
                                   (Inl (Wrapf ''failed to establish LND connection: '' err),
                                    tr2, tls')
                               | Inr conn \<Rightarrow>
                                   (case GetInfo w conn of
                                      Inl err \<Rightarrow>
                                        (Inl (Wrapf
                                           ''connected but failed to get node info: '' err),
                                         tr2 @ [EvGetInfo conn, EvClose conn], tls')
                                    | Inr info \<Rightarrow>
                                        (Inr (conn, info), tr2 @ [EvGetInfo conn],
                                         tls'))))))))"

subsection \<open>The service manager's side of a new connection\<close>

text \<open>
  A Lightning client made by \<open>lnrpc.NewLightningClient(conn)\<close> is identified with its
  connection; \<open>None\<close> is a nil client.
\<close>

record Manager =
  lncConnection :: "client_conn option"
  invoiceService_LightningClient :: "client_conn option"
  channelService_LightningClient :: "client_conn option"
  paymentService_LightningClient :: "client_conn option"
  onchainService_LightningClient :: "client_conn option"
  peerService_LightningClient :: "client_conn option"
  nodeService_LightningClient :: "client_conn option"

definition onLNCConnectionEstablished :: "client_conn \<Rightarrow> Manager \<Rightarrow> Manager" where
  "onLNCConnectionEstablished conn m =
     m\<lparr>lncConnection := Some conn,
       invoiceService_LightningClient := Some conn,
       channelService_LightningClient := Some conn,
       paymentService_LightningClient := Some conn,
       onchainService_LightningClient := Some conn,
       peerService_LightningClient := Some conn,
       nodeService_LightningClient := Some conn\<rparr>"

definition InitializeServices :: Manager where
  "InitializeServices =
     \<lparr>lncConnection = None,
      invoiceService_LightningClient = None,
      channelService_LightningClient = None,
      paymentService_LightningClient = None,
      onchainService_LightningClient = None,
      peerService_LightningClient = None,
      nodeService_LightningClient = None\<rparr>"

subsection \<open>The handlers of the connection service\<close>

text \<open>
  The state a connect or disconnect call can change: the two fields of the
  \<open>ConnectionService\<close>, the manager its callback writes to, and the TLS configuration of
  \<open>http.DefaultTransport\<close>.
\<close>

record process =
  Connection :: "client_conn option"
  ConnectionCallback :: "(client_conn \<Rightarrow> Manager \<Rightarrow> Manager) option"
  manager :: Manager
  TLSClientConfig :: "tls_Config option"

text \<open>
  The text of a successful result is a JSON document printed from the values named here:
  the node summary and the mailbox address after a connect, nothing after a disconnect,
  the response messages of the node after a query. A response message is kept as an
  uninterpreted text, and the printing itself is not modelled.
\<close>

type_synonym response = string

datatype payload =
    Connected GetInfoResponse string
  | Disconnected
  | Formatted "response list"

datatype CallToolResult =
    ToolResultError string
  | ToolResultText payload

definition getMailboxServer :: "arguments \<Rightarrow> string" where
  "getMailboxServer args =
     (case args ''mailbox'' of
        Some (JString mailboxStr) \<Rightarrow> mailboxStr
      | _ \<Rightarrow> [])"

text \<open>
  The three connection parameters \<open>HandleConnect\<close> computes from the arguments, with
  the environment variables as defaults. A non-empty \<open>LNC_DEV_MODE\<close> or
  \<open>LNC_INSECURE\<close> that \<open>ParseBool\<close> rejects counts as false.
\<close>

definition mailboxServer_of :: "world \<Rightarrow> arguments \<Rightarrow> string" where
  "mailboxServer_of w args =
     (if getMailboxServer args = [] then
        (if Getenv w ''LNC_MAILBOX_SERVER'' \<noteq> [] then Getenv w ''LNC_MAILBOX_SERVER''
         else ''mailbox.terminal.lightning.today:443'')
      else getMailboxServer args)"

definition devMode_of :: "world \<Rightarrow> arguments \<Rightarrow> bool" where
  "devMode_of w args =
     (case as_bool (args ''devMode'') of
        (dev, True) \<Rightarrow> dev
      | (_, False) \<Rightarrow>
          (if Getenv w ''LNC_DEV_MODE'' \<noteq> [] then fst (ParseBool (Getenv w ''LNC_DEV_MODE''))
           else False))"

definition insecure_of :: "world \<Rightarrow> arguments \<Rightarrow> bool" where
  "insecure_of w args =
     (case as_bool (args ''insecure'') of
        (ins, True) \<Rightarrow> ins
      | (_, False) \<Rightarrow>
          (if Getenv w ''LNC_INSECURE'' \<noteq> [] then fst (ParseBool (Getenv w ''LNC_INSECURE''))
           else False))"

text \<open>
  \<open>HandleConnect\<close>. The request context gets 45 seconds; \<open>connectToLNC\<close> receives that
  same context (\<open>lnccontext.Ensure\<close> returns a \<open>RequestContext\<close> unchanged) and the
  pairing phrase as it was given, untrimmed. The timeout read from
  \<open>LNC_CONNECT_TIMEOUT\<close> is only logged and is left out, as is all logging.
\<close>

definition HandleConnect ::
  "world \<Rightarrow> process \<Rightarrow> arguments \<Rightarrow> CallToolResult \<times> event list \<times> process" where
  "HandleConnect w s args =
     (let reqCtx = New (parent_done w) (entered_at w) 45000;
          (pairingPhrase, ok) = as_string (args ''pairingPhrase'')
      in
      if \<not> ok then (ToolResultError ''pairingPhrase is required'', [], s)
      else
      let (password, ok) = as_string (args ''password'')
      in
      if \<not> ok then (ToolResultError ''password is required'', [], s)
      else
      let words = Split (TrimSpace pairingPhrase)
      in
      if length words \<noteq> 10
      then (ToolResultError ''pairingPhrase must contain exactly 10 words'', [], s)
      else
      let mailboxServer = mailboxServer_of w args;
          devMode = devMode_of w args;
          insecure = insecure_of w args
      in
      (case connectToLNC w reqCtx (entered_at w) pairingPhrase password mailboxServer
              devMode insecure (TLSClientConfig s) of
         (Inl err, tr, tls) \<Rightarrow>
           (ToolResultError (''Failed to connect to Lightning node: '' @ Error err), tr,
            s\<lparr>TLSClientConfig := tls\<rparr>)
       | (Inr (conn, nodeInfo), tr, tls) \<Rightarrow>
           (case ConnectionCallback s of
              None \<Rightarrow>
                (ToolResultText (Connected nodeInfo mailboxServer), tr,
                 s\<lparr>Connection := Some conn, TLSClientConfig := tls\<rparr>)
            | Some callback \<Rightarrow>
                (ToolResultText (Connected nodeInfo mailboxServer),
                 tr @ [EvConnectionCallback conn],
                 s\<lparr>Connection := Some conn, manager := callback conn (manager s),
                   TLSClientConfig := tls\<rparr>))))"

text \<open>
  Two notions for stating properties of \<open>HandleConnect\<close>: a request passes its three
  checks; and the call of \<open>connectToLNC\<close> it makes for a request that does.
\<close>

definition validates :: "arguments \<Rightarrow> bool" where
  "validates args =
     (snd (as_string (args ''pairingPhrase'')) \<and> snd (as_string (args ''password'')) \<and>
      length (Split (TrimSpace (fst (as_string (args ''pairingPhrase''))))) = 10)"

definition negotiation ::
  "world \<Rightarrow> process \<Rightarrow> arguments \<Rightarrow>
   (go_error + client_conn \<times> GetInfoResponse) \<times> event list \<times> tls_Config option" where
  "negotiation w s args =
     connectToLNC w (New (parent_done w) (entered_at w) 45000) (entered_at w)
       (fst (as_string (args ''pairingPhrase''))) (fst (as_string (args ''password'')))
       (mailboxServer_of w args) (devMode_of w args) (insecure_of w args) (TLSClientConfig s)"

text \<open>
  \<open>HandleDisconnect\<close>, with the one line it logs about the outcome of \<open>Close\<close>.
\<close>

definition HandleDisconnect ::
  "world \<Rightarrow> process \<Rightarrow> CallToolResult \<times> event list \<times> string list \<times> process" where
  "HandleDisconnect w s =
     (case Connection s of
        Some conn \<Rightarrow>
          (case Close w conn of
             Some err \<Rightarrow>
               (ToolResultText Disconnected, [EvClose conn],
                [''Error closing connection''], s\<lparr>Connection := None\<rparr>)
           | None \<Rightarrow>
               (ToolResultText Disconnected, [EvClose conn],
                [''Connection closed successfully''], s\<lparr>Connection := None\<rparr>))
      | None \<Rightarrow>
          (ToolResultText Disconnected, [], [''No active connection to close''], s))"

section \<open>The query services\<close>

text \<open>
  Converting a \<open>float64\<close> to an integer type discards the fraction; when the result does
  not fit the type, Go leaves the value to the platform, which is a parameter here.
\<close>

definition trunc :: "rat \<Rightarrow> int" where
  "trunc x = (if 0 \<le> x then \<lfloor>x\<rfloor> else \<lceil>x\<rceil>)"

record platform =
  uint64_unrepresentable :: "rat \<Rightarrow> 64 word"
  int32_unrepresentable :: "rat \<Rightarrow> 32 word"

definition uint64 :: "platform \<Rightarrow> rat \<Rightarrow> 64 word" where
  "uint64 pf x =
     (if 0 \<le> trunc x \<and> trunc x < 2 ^ 64 then word_of_int (trunc x)
      else uint64_unrepresentable pf x)"

definition int32 :: "platform \<Rightarrow> rat \<Rightarrow> 32 word" where
  "int32 pf x =
     (if - (2 ^ 31) \<le> trunc x \<and> trunc x < 2 ^ 31 then word_of_int (trunc x)
      else int32_unrepresentable pf x)"

text \<open>\<open>hex.DecodeString\<close>; \<open>None\<close> is its error.\<close>

definition fromHexChar :: "char \<Rightarrow> nat option" where
  "fromHexChar c =
     (let n = of_char c :: nat in
      if 48 \<le> n \<and> n \<le> 57 then Some (n - 48)
      else if 97 \<le> n \<and> n \<le> 102 then Some (n - 97 + 10)
      else if 65 \<le> n \<and> n \<le> 70 then Some (n - 65 + 10)
      else None)"

fun DecodeString :: "string \<Rightarrow> 8 word list option" where
  "DecodeString [] = Some []"
| "DecodeString [c] = None"
| "DecodeString (a # b # cs) =
     (case (fromHexChar a, fromHexChar b) of
        (Some x, Some y) \<Rightarrow>
          (case DecodeString cs of
             Some bytes \<Rightarrow> Some (word_of_nat (16 * x + y) # bytes)
           | None \<Rightarrow> None)
      | _ \<Rightarrow> None)"

text \<open>
  The requests the handlers send, one constructor for each request message with the fields
  the handlers set, in the order of the source; a field the handler leaves out has its zero
  value.
\<close>

datatype rpc_request =
    GetInfoRequest
  | WalletBalanceRequest
  | ChannelBalanceRequest
  | ListChannelsRequest bool bool bool bool
  | PendingChannelsRequest
  | PayReqString string
  | ListInvoiceRequest bool "64 word" "64 word" bool
  | PaymentHash "8 word list"
  | ListPaymentsRequest bool "64 word" "64 word" bool
  | ListUnspentRequest "32 word" "32 word" string
  | GetTransactionsRequest "32 word" "32 word" string
  | EstimateFeeRequest "32 word"
  | ListPeersRequest
  | ChannelGraphRequest bool
  | NodeInfoRequest string bool

text \<open>
  A Lightning client answers a request with an error or a response message. Each handler
  returns its result and the requests it sent, in order.
\<close>

type_synonym lightning = "client_conn \<Rightarrow> rpc_request \<Rightarrow> go_error + response"

definition not_connected :: "CallToolResult" where
  "not_connected = ToolResultError ''Not connected to Lightning node. Use lnc_connect first.''"

definition HandleGetInfo ::
  "lightning \<Rightarrow> client_conn option \<Rightarrow> arguments \<Rightarrow> CallToolResult \<times> rpc_request list" where
  "HandleGetInfo rpc LightningClient args =
     (case LightningClient of
        None \<Rightarrow> (not_connected, [])
      | Some c \<Rightarrow>
          (case rpc c GetInfoRequest of
             Inl err \<Rightarrow>
               (ToolResultError (''Failed to get node info: '' @ Error err), [GetInfoRequest])
           | Inr info \<Rightarrow> (ToolResultText (Formatted [info]), [GetInfoRequest])))"

definition HandleGetBalance ::
  "lightning \<Rightarrow> client_conn option \<Rightarrow> arguments \<Rightarrow> CallToolResult \<times> rpc_request list" where
  "HandleGetBalance rpc LightningClient args =
     (case LightningClient of
        None \<Rightarrow> (not_connected, [])
      | Some c \<Rightarrow>
          (case rpc c WalletBalanceRequest of
             Inl err \<Rightarrow>
               (ToolResultError (''Failed to get wallet balance: '' @ Error err),
                [WalletBalanceRequest])
           | Inr walletBalance \<Rightarrow>
               (case rpc c ChannelBalanceRequest of
                  Inl err \<Rightarrow>
                    (ToolResultError (''Failed to get channel balance: '' @ Error err),
                     [WalletBalanceRequest, ChannelBalanceRequest])
                | Inr channelBalance \<Rightarrow>
                    (ToolResultText (Formatted [walletBalance, channelBalance]),
                     [WalletBalanceRequest, ChannelBalanceRequest]))))"

definition HandleDecodeInvoice ::
  "lightning \<Rightarrow> client_conn option \<Rightarrow> arguments \<Rightarrow> CallToolResult \<times> rpc_request list" where
  "HandleDecodeInvoice rpc LightningClient args =
     (case LightningClient of
        None \<Rightarrow> (not_connected, [])
      | Some c \<Rightarrow>
          (case as_string (args ''invoice'') of
             (_, False) \<Rightarrow> (ToolResultError ''invoice is required'', [])
           | (invoice, True) \<Rightarrow>
               if length invoice < 3 \<or> take 2 invoice \<noteq> ''ln''
               then (ToolResultError ''invalid BOLT11 invoice format'', [])
               else
                 (case rpc c (PayReqString invoice) of
                    Inl err \<Rightarrow>
                      (ToolResultError (''Failed to decode invoice: '' @ Error err),
                       [PayReqString invoice])
                  | Inr decoded \<Rightarrow>
                      (ToolResultText (Formatted [decoded]), [PayReqString invoice]))))"

definition HandleListInvoices ::
  "platform \<Rightarrow> lightning \<Rightarrow> client_conn option \<Rightarrow> arguments \<Rightarrow>
   CallToolResult \<times> rpc_request list" where
  "HandleListInvoices pf rpc LightningClient args =
     (case LightningClient of
        None \<Rightarrow> (not_connected, [])
      | Some c \<Rightarrow>
          let pendingOnly = fst (as_bool (args ''pending_only''));
              indexOffset = fst (as_float64 (args ''index_offset''));
              numMaxInvoices0 = fst (as_float64 (args ''num_max_invoices''));
              numMaxInvoices = (if numMaxInvoices0 = 0 then 100 else numMaxInvoices0);
              reversed = fst (as_bool (args ''reversed''));
              req = ListInvoiceRequest pendingOnly (uint64 pf indexOffset)
                      (uint64 pf numMaxInvoices) reversed
          in
          (case rpc c req of
             Inl err \<Rightarrow> (ToolResultError (''Failed to list invoices: '' @ Error err), [req])
           | Inr resp \<Rightarrow> (ToolResultText (Formatted [resp]), [req])))"

definition HandleLookupInvoice ::
  "lightning \<Rightarrow> client_conn option \<Rightarrow> arguments \<Rightarrow> CallToolResult \<times> rpc_request list" where
  "HandleLookupInvoice rpc LightningClient args =
     (case LightningClient of
        None \<Rightarrow> (not_connected, [])
      | Some c \<Rightarrow>
          (case as_string (args ''payment_hash'') of
             (_, False) \<Rightarrow> (ToolResultError ''payment_hash is required'', [])
           | (paymentHash, True) \<Rightarrow>
               if length paymentHash \<noteq> 64
               then (ToolResultError ''payment_hash must be a 64-character hex string'', [])
               else
                 (case DecodeString paymentHash of
                    None \<Rightarrow> (ToolResultError ''invalid payment_hash format'', [])
                  | Some rhashBytes \<Rightarrow>
                      (case rpc c (PaymentHash rhashBytes) of
                         Inl err \<Rightarrow>
                           (ToolResultError (''Failed to lookup invoice: '' @ Error err),
                            [PaymentHash rhashBytes])
                       | Inr invoice \<Rightarrow>
                           (ToolResultText (Formatted [invoice]),
                            [PaymentHash rhashBytes])))))"

definition HandleListChannels ::
  "lightning \<Rightarrow> client_conn option \<Rightarrow> arguments \<Rightarrow> CallToolResult \<times> rpc_request list" where
  "HandleListChannels rpc LightningClient args =
     (case LightningClient of
        None \<Rightarrow> (not_connected, [])
      | Some c \<Rightarrow>
          let req = ListChannelsRequest (fst (as_bool (args ''active_only'')))
                      (fst (as_bool (args ''inactive_only'')))
                      (fst (as_bool (args ''public_only'')))
                      (fst (as_bool (args ''private_only'')))
          in
          (case rpc c req of
             Inl err \<Rightarrow> (ToolResultError (''Failed to list channels: '' @ Error err), [req])
           | Inr channels \<Rightarrow> (ToolResultText (Formatted [channels]), [req])))"

definition HandlePendingChannels ::
  "lightning \<Rightarrow> client_conn option \<Rightarrow> arguments \<Rightarrow> CallToolResult \<times> rpc_request list" where
  "HandlePendingChannels rpc LightningClient args =
     (case LightningClient of
        None \<Rightarrow> (not_connected, [])
      | Some c \<Rightarrow>
          (case rpc c PendingChannelsRequest of
             Inl err \<Rightarrow>
               (ToolResultError (''Failed to get pending channels: '' @ Error err),
                [PendingChannelsRequest])
           | Inr pending \<Rightarrow> (ToolResultText (Formatted [pending]), [PendingChannelsRequest])))"

definition HandleListPayments ::
  "platform \<Rightarrow> lightning \<Rightarrow> client_conn option \<Rightarrow> arguments \<Rightarrow>
   CallToolResult \<times> rpc_request list" where
  "HandleListPayments pf rpc LightningClient args =
     (case LightningClient of
        None \<Rightarrow> (not_connected, [])
      | Some c \<Rightarrow>
          let includeIncomplete = fst (as_bool (args ''include_incomplete''));
              indexOffset = fst (as_float64 (args ''index_offset''));
              maxPayments0 = fst (as_float64 (args ''max_payments''));
              maxPayments = (if maxPayments0 = 0 then 100 else maxPayments0);
              reversed = fst (as_bool (args ''reversed''));
              req = ListPaymentsRequest includeIncomplete (uint64 pf indexOffset)
                      (uint64 pf maxPayments) reversed
          in
          (case rpc c req of
             Inl err \<Rightarrow> (ToolResultError (''Failed to list payments: '' @ Error err), [req])
           | Inr resp \<Rightarrow> (ToolResultText (Formatted [resp]), [req])))"

definition HandleTrackPayment ::
  "lightning \<Rightarrow> client_conn option \<Rightarrow> arguments \<Rightarrow> CallToolResult \<times> rpc_request list" where
  "HandleTrackPayment rpc LightningClient args =
     (case LightningClient of
        None \<Rightarrow> (not_connected, [])
      | Some c \<Rightarrow>
          (case as_string (args ''payment_hash'') of
             (_, False) \<Rightarrow> (ToolResultError ''payment_hash is required'', [])
           | (paymentHash, True) \<Rightarrow>
               if length paymentHash \<noteq> 64
               then (ToolResultError ''payment_hash must be a 64-character hex string'', [])
               else
                 (case rpc c (ListPaymentsRequest True 0 0 False) of
                    Inl err \<Rightarrow>
                      (ToolResultError (''Failed to fetch payment: '' @ Error err),
                       [ListPaymentsRequest True 0 0 False])
                  | Inr resp \<Rightarrow>
                      (ToolResultText (Formatted [resp]),
                       [ListPaymentsRequest True 0 0 False]))))"

definition HandleListUnspent ::
  "platform \<Rightarrow> lightning \<Rightarrow> client_conn option \<Rightarrow> arguments \<Rightarrow>
   CallToolResult \<times> rpc_request list" where
  "HandleListUnspent pf rpc LightningClient args =
     (case LightningClient of
        None \<Rightarrow> (not_connected, [])
      | Some c \<Rightarrow>
          let minConfs = fst (as_float64 (args ''min_confs''));
              maxConfs0 = fst (as_float64 (args ''max_confs''));
              maxConfs = (if maxConfs0 = 0 then 9999999 else maxConfs0);
              account = fst (as_string (args ''account''));
              req = ListUnspentRequest (int32 pf minConfs) (int32 pf maxConfs) account
          in
          (case rpc c req of
             Inl err \<Rightarrow> (ToolResultError (''Failed to list unspent: '' @ Error err), [req])
           | Inr resp \<Rightarrow> (ToolResultText (Formatted [resp]), [req])))"

definition HandleGetTransactions ::
  "platform \<Rightarrow> lightning \<Rightarrow> client_conn option \<Rightarrow> arguments \<Rightarrow>
   CallToolResult \<times> rpc_request list" where
  "HandleGetTransactions pf rpc LightningClient args =
     (case LightningClient of
        None \<Rightarrow> (not_connected, [])
      | Some c \<Rightarrow>
          let startHeight = fst (as_float64 (args ''start_height''));
              endHeight0 = fst (as_float64 (args ''end_height''));
              endHeight = (if endHeight0 = 0 then - 1 else endHeight0);
              account = fst (as_string (args ''account''));
              req = GetTransactionsRequest (int32 pf startHeight) (int32 pf endHeight) account
          in
          (case rpc c req of
             Inl err \<Rightarrow> (ToolResultError (''Failed to get transactions: '' @ Error err), [req])
           | Inr resp \<Rightarrow> (ToolResultText (Formatted [resp]), [req])))"

text \<open>
  The loop of \<open>HandleEstimateFee\<close> over the fixed targets: the requests it sends and the
  estimates it collects.
\<close>

fun estimate_targets ::
  "platform \<Rightarrow> lightning \<Rightarrow> client_conn \<Rightarrow> rat \<Rightarrow> 32 word list \<Rightarrow> rpc_request list \<times> response list" where
  "estimate_targets pf rpc c targetConf [] = ([], [])"
| "estimate_targets pf rpc c targetConf (target # targets) =
     (if targetConf > 0 \<and> target \<noteq> int32 pf targetConf
      then estimate_targets pf rpc c targetConf targets
      else
        (case rpc c (EstimateFeeRequest target) of
           Inl err \<Rightarrow>
             (case estimate_targets pf rpc c targetConf targets of
                (reqs, estimates) \<Rightarrow> (EstimateFeeRequest target # reqs, estimates))
         | Inr resp \<Rightarrow>
             if targetConf > 0 then ([EstimateFeeRequest target], [resp])
             else
               (case estimate_targets pf rpc c targetConf targets of
                  (reqs, estimates) \<Rightarrow> (EstimateFeeRequest target # reqs, resp # estimates))))"

definition HandleEstimateFee ::
  "platform \<Rightarrow> lightning \<Rightarrow> client_conn option \<Rightarrow> arguments \<Rightarrow>
   CallToolResult \<times> rpc_request list" where
  "HandleEstimateFee pf rpc LightningClient args =
     (case LightningClient of
        None \<Rightarrow> (not_connected, [])
      | Some c \<Rightarrow>
          let targetConf0 = fst (as_float64 (args ''target_conf''));
              targetConf = (if targetConf0 = 0 then 6 else targetConf0)
          in
          (case estimate_targets pf rpc c targetConf [1, 3, 6, 10, 20, 50, 100] of
             (reqs, estimates) \<Rightarrow>
               if length estimates = 0
               then (ToolResultError ''Failed to get fee estimates'', reqs)
               else (ToolResultText (Formatted estimates), reqs)))"

definition HandleListPeers ::
  "lightning \<Rightarrow> client_conn option \<Rightarrow> arguments \<Rightarrow> CallToolResult \<times> rpc_request list" where
  "HandleListPeers rpc LightningClient args =
     (case LightningClient of
        None \<Rightarrow> (not_connected, [])
      | Some c \<Rightarrow>
          (case rpc c ListPeersRequest of
             Inl err \<Rightarrow>
               (ToolResultError (''Failed to list peers: '' @ Error err), [ListPeersRequest])
           | Inr peers \<Rightarrow> (ToolResultText (Formatted [peers]), [ListPeersRequest])))"

definition HandleDescribeGraph ::
  "lightning \<Rightarrow> client_conn option \<Rightarrow> arguments \<Rightarrow> CallToolResult \<times> rpc_request list" where
  "HandleDescribeGraph rpc LightningClient args =
     (case LightningClient of
        None \<Rightarrow> (not_connected, [])
      | Some c \<Rightarrow>
          let req = ChannelGraphRequest (fst (as_bool (args ''include_unannounced'')))
          in
          (case rpc c req of
             Inl err \<Rightarrow> (ToolResultError (''Failed to describe graph: '' @ Error err), [req])
           | Inr graph \<Rightarrow> (ToolResultText (Formatted [graph]), [req])))"

definition HandleGetNodeInfo ::
  "lightning \<Rightarrow> client_conn option \<Rightarrow> arguments \<Rightarrow> CallToolResult \<times> rpc_request list" where
  "HandleGetNodeInfo rpc LightningClient args =
     (case LightningClient of
        None \<Rightarrow> (not_connected, [])
      | Some c \<Rightarrow>
          (case as_string (args ''pub_key'') of
             (_, False) \<Rightarrow> (ToolResultError ''pub_key is required'', [])
           | (pubKey, True) \<Rightarrow>
               let req = NodeInfoRequest pubKey (fst (as_bool (args ''include_channels'')))
               in
               (case rpc c req of
                  Inl err \<Rightarrow>
                    (ToolResultError (''Failed to get node info: '' @ Error err), [req])
                | Inr nodeInfo \<Rightarrow> (ToolResultText (Formatted [nodeInfo]), [req]))))"

section \<open>Concrete inputs\<close>

text \<open>
  A node that answers, reached through a mailbox that hands out connection 7 after 100 ms;
  the two callbacks fire 3.5 s and 3.6 s after the call was entered.
\<close>

definition alice :: GetInfoResponse where
  "alice = \<lparr>IdentityPubkey = ''02ab'', Alias = ''alice'', NumActiveChannels = 2,
             NumPeers = 3, Version = ''0.18.0''\<rparr>"

definition no_env :: "string \<Rightarrow> string" where
  "no_env name = []"

definition mailbox_up :: "string \<Rightarrow> string \<Rightarrow> go_error + (go_error + client_conn) option" where
  "mailbox_up server phrase = Inr (Some (Inr 7))"

definition node_up :: "client_conn \<Rightarrow> go_error + GetInfoResponse" where
  "node_up conn = Inr alice"

definition node_silent :: "client_conn \<Rightarrow> go_error + GetInfoResponse" where
  "node_silent conn = Inl (ErrorString ''rpc error: code = Canceled desc = context canceled'')"

definition close_ok :: "client_conn \<Rightarrow> go_error option" where
  "close_ok conn = None"

definition close_fails :: "client_conn \<Rightarrow> go_error option" where
  "close_fails conn = Some (ErrorString ''grpc: the client connection is closing'')"

definition calm :: world where
  "calm = \<lparr>Getenv = no_env, entered_at = 0, parent_done = None, NewPrivateKey = None,
            NewClientWebsocketConn = mailbox_up, dial_time = 100,
            remote_key_at = Some 3500, auth_at = Some 3600, select_prefers_done = False,
            GetInfo = node_up, Close = close_ok\<rparr>"

definition fresh :: process where
  "fresh = \<lparr>Connection = None, ConnectionCallback = Some onLNCConnectionEstablished,
             manager = InitializeServices, TLSClientConfig = None\<rparr>"

definition ten_words :: string where
  "ten_words = ''one two three four five six seven eight nine ten''"

definition connect_args :: "string \<Rightarrow> string \<Rightarrow> arguments" where
  "connect_args phrase password =
     [''pairingPhrase'' \<mapsto> JString phrase, ''password'' \<mapsto> JString password]"

definition good_args :: arguments where
  "good_args = connect_args ten_words ''hunter2''"

text \<open>The same node when it does not answer the liveness call.\<close>

definition silent :: world where
  "silent = calm\<lparr>GetInfo := node_silent\<rparr>"

text \<open>A process that already holds connection 3 from an earlier connect.\<close>

definition connected_before :: process where
  "connected_before = fresh\<lparr>Connection := Some 3\<rparr>"

text \<open>
  Two phrases from the point of view of the repository's test of the word-count rule
  (\<open>TestPairingPhraseValidation\<close>, which counts \<open>strings.Fields\<close>): the test's own
  case with extra spaces between ten words, and eleven words of which the first two are
  separated by a tab.
\<close>

definition pairingPhraseValid_test :: "string \<Rightarrow> bool" where
  "pairingPhraseValid_test phrase = (length (Fields phrase) = 10)"

definition extra_spaces :: string where
  "extra_spaces = ''one  two   three four five six seven eight nine ten''"

definition tab_joined :: string where
  "tab_joined = ''one'' @ [CHR 0x09] @ ''two three four five six seven eight nine ten eleven''"

text \<open>A request that carries a pairing phrase and nothing else.\<close>

definition no_password_args :: arguments where
  "no_password_args = [''pairingPhrase'' \<mapsto> JString ten_words]"

text \<open>The request of \<open>good_args\<close> sent to a mailbox on the loopback address.\<close>

definition loopback_args :: arguments where
  "loopback_args = good_args(''mailbox'' \<mapsto> JString ''127.0.0.1:11110'')"

text \<open>
  A mailbox whose callbacks never fire; and the same with a node that does not answer and
  a caller that cancels 7.95 s after the call was entered, which is 4.85 s into the poll
  loop.
\<close>

definition deaf :: world where
  "deaf = calm\<lparr>remote_key_at := None, auth_at := None\<rparr>"

definition late_cancel :: world where
  "late_cancel = deaf\<lparr>parent_done := Some (7950, Canceled), GetInfo := node_silent\<rparr>"

definition all_polls :: "nat list" where
  "all_polls = [3100, 3300, 3500, 3700, 3900, 4100, 4300, 4500, 4700, 4900, 5100, 5300, 5500,
     5700, 5900, 6100, 6300, 6500, 6700, 6900, 7100, 7300, 7500, 7700, 7900]"

text \<open>
  The request of \<open>good_args\<close> with dev mode, with insecure mode, and sent to a mailbox
  named "localhost"; and an environment that sets \<open>LNC_DEV_MODE\<close>.
\<close>

definition dev_args :: arguments where
  "dev_args = good_args(''devMode'' \<mapsto> JBool True)"

definition insecure_args :: arguments where
  "insecure_args = good_args(''insecure'' \<mapsto> JBool True)"

definition localhost_args :: arguments where
  "localhost_args = good_args(''mailbox'' \<mapsto> JString ''localhost:11110'')"

definition dev_env :: "string \<Rightarrow> string" where
  "dev_env name = (if name = ''LNC_DEV_MODE'' then ''true'' else [])"

definition dev_box :: world where
  "dev_box = calm\<lparr>Getenv := dev_env\<rparr>"

section \<open>Properties\<close>

subsection \<open>The poll loop\<close>

lemma pollLoop_polls:
  "pollLoop w ctx waitStart now = (polls, r) \<Longrightarrow>
     polls = map (\<lambda>k. now + 200 * k) [0..<length polls]"
proof (induction w ctx waitStart now arbitrary: polls r rule: pollLoop.induct)
  case (1 w ctx waitStart now)
  show ?case
  proof (cases "now - waitStart < 5000 \<and> \<not> Done ctx now \<and>
                \<not> (authReceived w now \<and> remotePub_set w now)")
    case True
    obtain ps r' where rec: "pollLoop w ctx waitStart (now + 200) = (ps, r')"
      by (cases "pollLoop w ctx waitStart (now + 200)")
    from True rec "1.prems" have eq: "polls = now # ps" "r = r'"
      by (auto simp: pollLoop.simps [of w ctx waitStart now])
    from True rec "1.IH" have ps: "ps = map (\<lambda>k. now + 200 + 200 * k) [0..<length ps]"
      by blast
    have "map (\<lambda>k. now + 200 * k) [0..<Suc (length ps)] =
          now # map (\<lambda>k. now + 200 * k) (map Suc [0..<length ps])"
      by (simp only: upt_conv_Cons [of 0 "Suc (length ps)"] map_Suc_upt) simp
    also have "map (\<lambda>k. now + 200 * k) (map Suc [0..<length ps]) =
          map (\<lambda>k. now + 200 + 200 * k) [0..<length ps]"
      by simp
    finally show ?thesis using ps eq by simp
  next
    case False
    with "1.prems" show ?thesis
      by (auto simp: pollLoop.simps [of w ctx waitStart now] split: if_splits)
  qed
qed

lemma pollLoop_length:
  "pollLoop w ctx waitStart now = (polls, r) \<Longrightarrow>
     200 * length polls \<le> waitStart + 5000 - now + 199"
proof (induction w ctx waitStart now arbitrary: polls r rule: pollLoop.induct)
  case (1 w ctx waitStart now)
  show ?case
  proof (cases "now - waitStart < 5000 \<and> \<not> Done ctx now \<and>
                \<not> (authReceived w now \<and> remotePub_set w now)")
    case True
    obtain ps r' where rec: "pollLoop w ctx waitStart (now + 200) = (ps, r')"
      by (cases "pollLoop w ctx waitStart (now + 200)")
    from True rec "1.prems" have eq: "polls = now # ps"
      by (auto simp: pollLoop.simps [of w ctx waitStart now])
    from True rec "1.IH" have ih: "200 * length ps \<le> waitStart + 5000 - (now + 200) + 199"
      by blast
    from True have lt: "now - waitStart < 5000" by simp
    from ih lt have "200 * (1 + length ps) \<le> waitStart + 5000 - now + 199"
      by arith
    with eq show ?thesis by simp
  next
    case False
    with "1.prems" show ?thesis
      by (auto simp: pollLoop.simps [of w ctx waitStart now] split: if_splits)
  qed
qed

lemma pollLoop_Elapsed:
  "now = waitStart + 200 * j \<Longrightarrow> j \<le> 25 \<Longrightarrow>
   pollLoop w ctx waitStart now = (polls, Elapsed t) \<Longrightarrow>
     t \<le> waitStart + 5000 \<and> now \<le> t \<and>
     (t < waitStart + 5000 \<longrightarrow>
        authReceived w t \<and> remotePub_set w t \<and> polls \<noteq> [] \<and> last polls = t)"
proof (induction w ctx waitStart now arbitrary: polls j rule: pollLoop.induct)
  case (1 w ctx waitStart now)
  show ?case
  proof (cases "now - waitStart < 5000 \<and> \<not> Done ctx now \<and>
                \<not> (authReceived w now \<and> remotePub_set w now)")
    case True
    obtain ps r' where rec: "pollLoop w ctx waitStart (now + 200) = (ps, r')"
      by (cases "pollLoop w ctx waitStart (now + 200)")
    from True rec "1.prems"(3) have eq: "polls = now # ps" "r' = Elapsed t"
      by (auto simp: pollLoop.simps [of w ctx waitStart now])
    from True have lt: "now - waitStart < 5000" by simp
    from lt "1.prems"(1,2) have j: "now + 200 = waitStart + 200 * Suc j" "Suc j \<le> 25"
      by simp_all
    from rec eq have rec': "pollLoop w ctx waitStart (now + 200) = (ps, Elapsed t)"
      by simp
    from "1.IH" [OF _ _ _ j rec'] True
    have ih: "t \<le> waitStart + 5000 \<and> now + 200 \<le> t \<and>
       (t < waitStart + 5000 \<longrightarrow>
          authReceived w t \<and> remotePub_set w t \<and> ps \<noteq> [] \<and> last ps = t)"
      by blast
    with eq show ?thesis by simp
  next
    case False
    with "1.prems"(3)
    have "t = now \<and> (now - waitStart < 5000 \<longrightarrow>
            authReceived w now \<and> remotePub_set w now \<and> polls = [now])"
      by (auto simp: pollLoop.simps [of w ctx waitStart now] split: if_splits)
    with "1.prems"(1,2) show ?thesis by auto
  qed
qed

lemma pollLoop_butlast:
  "pollLoop w ctx waitStart now = (polls, r) \<Longrightarrow>
     \<forall>t \<in> set (butlast polls). \<not> Done ctx t \<and> \<not> (authReceived w t \<and> remotePub_set w t)"
proof (induction w ctx waitStart now arbitrary: polls r rule: pollLoop.induct)
  case (1 w ctx waitStart now)
  show ?case
  proof (cases "now - waitStart < 5000 \<and> \<not> Done ctx now \<and>
                \<not> (authReceived w now \<and> remotePub_set w now)")
    case True
    obtain ps r' where rec: "pollLoop w ctx waitStart (now + 200) = (ps, r')"
      by (cases "pollLoop w ctx waitStart (now + 200)")
    from True rec "1.prems" have eq: "polls = now # ps" "r = r'"
      by (auto simp: pollLoop.simps [of w ctx waitStart now])
    from True rec "1.IH" have "\<forall>t \<in> set (butlast ps). \<not> Done ctx t \<and> \<not> (authReceived w t \<and> remotePub_set w t)"
      by blast
    with eq True show ?thesis by (auto split: if_splits)
  next
    case False
    with "1.prems" show ?thesis
      by (auto simp: pollLoop.simps [of w ctx waitStart now] split: if_splits)
  qed
qed

lemma pollLoop_Aborted:
  "pollLoop w ctx waitStart now = (polls, Aborted t) \<Longrightarrow>
     Done ctx t \<and> polls \<noteq> [] \<and> last polls = t \<and> t - waitStart < 5000"
proof (induction w ctx waitStart now arbitrary: polls rule: pollLoop.induct)
  case (1 w ctx waitStart now)
  show ?case
  proof (cases "now - waitStart < 5000 \<and> \<not> Done ctx now \<and>
                \<not> (authReceived w now \<and> remotePub_set w now)")
    case True
    obtain ps r' where rec: "pollLoop w ctx waitStart (now + 200) = (ps, r')"
      by (cases "pollLoop w ctx waitStart (now + 200)")
    from True rec "1.prems" have eq: "polls = now # ps" "r' = Aborted t"
      by (auto simp: pollLoop.simps [of w ctx waitStart now])
    from True rec eq "1.IH"[of ps] have ih: "Done ctx t \<and> ps \<noteq> [] \<and> last ps = t \<and> t - waitStart < 5000"
      by simp
    with eq show ?thesis by simp
  next
    case False
    with "1.prems" show ?thesis
      by (auto simp: pollLoop.simps [of w ctx waitStart now] split: if_splits)
  qed
qed

lemma pollLoop_aborts:
  "now + 200 * k < waitStart + 5000 \<Longrightarrow> Done ctx (now + 200 * k) \<Longrightarrow>
   \<forall>j<k. \<not> (authReceived w (now + 200 * j) \<and> remotePub_set w (now + 200 * j)) \<Longrightarrow>
   \<exists>t\<le>now + 200 * k. snd (pollLoop w ctx waitStart now) = Aborted t"
proof (induction k arbitrary: now)
  case 0
  then have "now - waitStart < 5000" "Done ctx now" by simp_all
  then have "snd (pollLoop w ctx waitStart now) = Aborted now"
    by (simp add: pollLoop.simps [of w ctx waitStart now])
  then show ?case by simp
next
  case (Suc k)
  have e: "now + 200 * Suc k = (now + 200) + 200 * k" by simp
  from Suc.prems(1) have lt: "now - waitStart < 5000" by simp
  show ?case
  proof (cases "Done ctx now")
    case True
    with lt have "snd (pollLoop w ctx waitStart now) = Aborted now"
      by (simp add: pollLoop.simps [of w ctx waitStart now])
    then show ?thesis by simp
  next
    case False
    have nb: "\<not> (authReceived w now \<and> remotePub_set w now)"
      using Suc.prems(3)[rule_format, of 0] by simp
    have later: "\<forall>j<k. \<not> (authReceived w ((now + 200) + 200 * j) \<and>
                         remotePub_set w ((now + 200) + 200 * j))"
    proof (intro allI impI)
      fix j assume jk: "j < k"
      have ej: "now + 200 * Suc j = (now + 200) + 200 * j" by simp
      from jk have "Suc j < Suc k" by simp
      from Suc.prems(3)[rule_format, OF this]
      show "\<not> (authReceived w ((now + 200) + 200 * j) \<and>
               remotePub_set w ((now + 200) + 200 * j))"
        unfolding ej .
    qed
    from Suc.IH [OF Suc.prems(1)[unfolded e] Suc.prems(2)[unfolded e] later]
    obtain t where t: "t \<le> (now + 200) + 200 * k"
        "snd (pollLoop w ctx waitStart (now + 200)) = Aborted t"
      by (elim exE conjE)
    from lt False nb have "snd (pollLoop w ctx waitStart now) =
        snd (pollLoop w ctx waitStart (now + 200))"
      by (auto simp: pollLoop.simps [of w ctx waitStart now] case_prod_beta)
    with t have "snd (pollLoop w ctx waitStart now) = Aborted t" by simp
    with t(1) show ?thesis unfolding e by (intro exI [of _ t] conjI)
  qed
qed

lemma pollLoop_count:
  assumes "pollLoop w ctx waitStart waitStart = (polls, r)"
  shows "length polls \<le> 25"
  using pollLoop_length [OF assms] by simp

lemma pollLoop_last_poll:
  assumes "pollLoop w ctx waitStart waitStart = (polls, r)" and "polls \<noteq> []"
  shows "last polls \<le> waitStart + 4800"
proof -
  from pollLoop_polls [OF assms(1)]
  have "polls = map (\<lambda>k. waitStart + 200 * k) [0..<length polls]" .
  then have "last polls = last (map (\<lambda>k. waitStart + 200 * k) [0..<length polls])"
    by simp
  also from assms(2) have "\<dots> = waitStart + 200 * (length polls - 1)"
    by (simp add: last_map)
  finally show ?thesis using pollLoop_count [OF assms(1)] by simp
qed

lemma pollLoop_not_done:
  assumes "pollLoop w ctx waitStart waitStart = (polls, r)"
    and "\<not> Done ctx (waitStart + 4800)"
  shows "\<exists>t. r = Elapsed t"
proof (cases r)
  case (Aborted t)
  from pollLoop_Aborted [OF assms(1) [unfolded Aborted]]
  have d: "Done ctx t" "polls \<noteq> []" "last polls = t" by simp_all
  from pollLoop_last_poll [OF assms(1) d(2)] d(3) have "t \<le> waitStart + 4800" by simp
  with d(1) assms(2) show ?thesis by (simp add: Done_def)
next
  case (Elapsed t)
  then show ?thesis by simp
qed

subsection \<open>How a connect call unfolds\<close>

lemma HandleConnect_no_phrase:
  "\<not> snd (as_string (args ''pairingPhrase'')) \<Longrightarrow>
     HandleConnect w s args = (ToolResultError ''pairingPhrase is required'', [], s)"
  by (simp add: HandleConnect_def Let_def case_prod_beta)

lemma HandleConnect_no_password:
  "snd (as_string (args ''pairingPhrase'')) \<Longrightarrow> \<not> snd (as_string (args ''password'')) \<Longrightarrow>
     HandleConnect w s args = (ToolResultError ''password is required'', [], s)"
  by (simp add: HandleConnect_def Let_def case_prod_beta)

lemma HandleConnect_word_count:
  "snd (as_string (args ''pairingPhrase'')) \<Longrightarrow> snd (as_string (args ''password'')) \<Longrightarrow>
   length (Split (TrimSpace (fst (as_string (args ''pairingPhrase''))))) \<noteq> 10 \<Longrightarrow>
     HandleConnect w s args =
       (ToolResultError ''pairingPhrase must contain exactly 10 words'', [], s)"
  by (simp add: HandleConnect_def Let_def case_prod_beta)


lemma HandleConnect_attempt:
  "snd (as_string (args ''pairingPhrase'')) \<Longrightarrow> snd (as_string (args ''password'')) \<Longrightarrow>
   length (Split (TrimSpace (fst (as_string (args ''pairingPhrase''))))) = 10 \<Longrightarrow>
     HandleConnect w s args =
       (case connectToLNC w (New (parent_done w) (entered_at w) 45000) (entered_at w)
               (fst (as_string (args ''pairingPhrase''))) (fst (as_string (args ''password'')))
               (mailboxServer_of w args) (devMode_of w args) (insecure_of w args)
               (TLSClientConfig s) of
          (Inl err, tr, tls) \<Rightarrow>
            (ToolResultError (''Failed to connect to Lightning node: '' @ Error err), tr,
             s\<lparr>TLSClientConfig := tls\<rparr>)
        | (Inr (conn, nodeInfo), tr, tls) \<Rightarrow>
            (case ConnectionCallback s of
               None \<Rightarrow>
                 (ToolResultText (Connected nodeInfo (mailboxServer_of w args)), tr,
                  s\<lparr>Connection := Some conn, TLSClientConfig := tls\<rparr>)
             | Some callback \<Rightarrow>
                 (ToolResultText (Connected nodeInfo (mailboxServer_of w args)),
                  tr @ [EvConnectionCallback conn],
                  s\<lparr>Connection := Some conn, manager := callback conn (manager s),
                    TLSClientConfig := tls\<rparr>)))"
  by (simp add: HandleConnect_def Let_def case_prod_beta)

lemma connectToLNC_cases:
  fixes w ctx now p pw m d i tls
  defines "relaxed \<equiv> wantsInsecureTLS d i m"
  defines "tls' \<equiv> (if relaxed then Some \<lparr>InsecureSkipVerify = True\<rparr> else tls)"
  defines "tr1 \<equiv> opening_events relaxed m p"
  obtains
    (keygen) err where "NewPrivateKey w = Some err"
      "connectToLNC w ctx now p pw m d i tls =
         (Inl (Wrapf ''failed to generate private key: '' err), [EvNewPrivateKey], tls)"
  | (mailbox) err where "NewPrivateKey w = None" "NewClientWebsocketConn w m p = Inl err"
      "connectToLNC w ctx now p pw m d i tls =
         (Inl (Wrapf ''failed to create mailbox connection: '' err), tr1, tls')"
  | (grace) lndConnect t where "NewPrivateKey w = None"
      "NewClientWebsocketConn w m p = Inr lndConnect"
      "graceWait w ctx (now + dial_time w) = Aborted t"
      "connectToLNC w ctx now p pw m d i tls =
         (Inl (Wrapf ''connection cancelled: '' (Err ctx)), tr1, tls')"
  | (no_connector) waitStart where "NewPrivateKey w = None"
      "NewClientWebsocketConn w m p = Inr None"
      "graceWait w ctx (now + dial_time w) = Elapsed waitStart"
      "connectToLNC w ctx now p pw m d i tls =
         (Inl (ErrorString ''lndConnect function not available after connection setup''),
          tr1, tls')"
  | (poll) connector waitStart polls t where "NewPrivateKey w = None"
      "NewClientWebsocketConn w m p = Inr (Some connector)"
      "graceWait w ctx (now + dial_time w) = Elapsed waitStart"
      "pollLoop w ctx waitStart waitStart = (polls, Aborted t)"
      "connectToLNC w ctx now p pw m d i tls =
         (Inl (Wrapf ''connection cancelled: '' (Err ctx)), tr1 @ map EvPoll polls, tls')"
  | (lnd) err waitStart polls t where "NewPrivateKey w = None"
      "NewClientWebsocketConn w m p = Inr (Some (Inl err))"
      "graceWait w ctx (now + dial_time w) = Elapsed waitStart"
      "pollLoop w ctx waitStart waitStart = (polls, Elapsed t)"
      "connectToLNC w ctx now p pw m d i tls =
         (Inl (Wrapf ''failed to establish LND connection: '' err),
          tr1 @ map EvPoll polls @ [EvStatusChecker, EvLndConnect], tls')"
  | (liveness) conn err waitStart polls t where "NewPrivateKey w = None"
      "NewClientWebsocketConn w m p = Inr (Some (Inr conn))"
      "graceWait w ctx (now + dial_time w) = Elapsed waitStart"
      "pollLoop w ctx waitStart waitStart = (polls, Elapsed t)"
      "GetInfo w conn = Inl err"
      "connectToLNC w ctx now p pw m d i tls =
         (Inl (Wrapf ''connected but failed to get node info: '' err),
          tr1 @ map EvPoll polls @
            [EvStatusChecker, EvLndConnect, EvGetInfo conn, EvClose conn], tls')"
  | (connected) conn info waitStart polls t where "NewPrivateKey w = None"
      "NewClientWebsocketConn w m p = Inr (Some (Inr conn))"
      "graceWait w ctx (now + dial_time w) = Elapsed waitStart"
      "pollLoop w ctx waitStart waitStart = (polls, Elapsed t)"
      "GetInfo w conn = Inr info"
      "connectToLNC w ctx now p pw m d i tls =
         (Inr (conn, info),
          tr1 @ map EvPoll polls @ [EvStatusChecker, EvLndConnect, EvGetInfo conn], tls')"
proof (cases "NewPrivateKey w")
  case (Some err)
  then show ?thesis using keygen by (simp add: connectToLNC_def)
next
  case None
  note key = None
  show ?thesis
  proof (cases "NewClientWebsocketConn w m p")
    case (Inl err)
    with key show ?thesis using mailbox
      by (simp add: connectToLNC_def Let_def relaxed_def tls'_def tr1_def)
  next
    case (Inr lndConnect)
    note box = Inr
    show ?thesis
    proof (cases "graceWait w ctx (now + dial_time w)")
      case (Aborted t)
      with key box show ?thesis using grace
        by (simp add: connectToLNC_def Let_def relaxed_def tls'_def tr1_def)
    next
      case (Elapsed waitStart)
      note wait = Elapsed
      show ?thesis
      proof (cases lndConnect)
        case None
        with key box wait show ?thesis using no_connector
          by (simp add: connectToLNC_def Let_def relaxed_def tls'_def tr1_def)
      next
        case (Some connector)
        note con = Some
        obtain polls r where pl: "pollLoop w ctx waitStart waitStart = (polls, r)"
          by (cases "pollLoop w ctx waitStart waitStart")
        show ?thesis
        proof (cases r)
          case (Aborted t)
          with key box wait con pl show ?thesis using poll
            by (simp add: connectToLNC_def Let_def relaxed_def tls'_def tr1_def)
        next
          case (Elapsed t)
          note el = Elapsed
          show ?thesis
          proof (cases connector)
            case (Inl err)
            with key box wait con pl el show ?thesis using lnd
              by (simp add: connectToLNC_def Let_def relaxed_def tls'_def tr1_def)
          next
            case (Inr conn)
            note cn = Inr
            show ?thesis
            proof (cases "GetInfo w conn")
              case (Inl err)
              with key box wait con pl el cn show ?thesis using liveness
                by (simp add: connectToLNC_def Let_def relaxed_def tls'_def tr1_def)
            next
              case (Inr info)
              with key box wait con pl el cn show ?thesis using connected
                by (simp add: connectToLNC_def Let_def relaxed_def tls'_def tr1_def)
            qed
          qed
        qed
      qed
    qed
  qed
qed


lemma HandleConnect_rejected:
  "\<not> validates args \<Longrightarrow>
     HandleConnect w s args = (ToolResultError ''pairingPhrase is required'', [], s) \<or>
     HandleConnect w s args = (ToolResultError ''password is required'', [], s) \<or>
     HandleConnect w s args =
       (ToolResultError ''pairingPhrase must contain exactly 10 words'', [], s)"
  using HandleConnect_no_phrase [of args w s] HandleConnect_no_password [of args w s]
    HandleConnect_word_count [of args w s]
  by (auto simp: validates_def)

lemma HandleConnect_rejected_trace:
  "\<not> validates args \<Longrightarrow>
     (\<exists>msg. fst (HandleConnect w s args) = ToolResultError msg) \<and>
     fst (snd (HandleConnect w s args)) = [] \<and> snd (snd (HandleConnect w s args)) = s"
  using HandleConnect_rejected [of args w s] by auto

lemma HandleConnect_failed:
  "validates args \<Longrightarrow> negotiation w s args = (Inl err, tr, tls) \<Longrightarrow>
     HandleConnect w s args =
       (ToolResultError (''Failed to connect to Lightning node: '' @ Error err), tr,
        s\<lparr>TLSClientConfig := tls\<rparr>)"
  using HandleConnect_attempt [of args w s] by (simp add: validates_def negotiation_def)

lemma HandleConnect_connected:
  "validates args \<Longrightarrow> negotiation w s args = (Inr (conn, info), tr, tls) \<Longrightarrow>
     HandleConnect w s args =
       (ToolResultText (Connected info (mailboxServer_of w args)),
        tr @ (case ConnectionCallback s of None \<Rightarrow> []
              | Some callback \<Rightarrow> [EvConnectionCallback conn]),
        s\<lparr>Connection := Some conn,
          manager := (case ConnectionCallback s of None \<Rightarrow> manager s
                      | Some callback \<Rightarrow> callback conn (manager s)),
          TLSClientConfig := tls\<rparr>)"
  using HandleConnect_attempt [of args w s]
  by (simp add: validates_def negotiation_def split: option.splits)

lemma connectToLNC_success:
  assumes "connectToLNC w ctx now p pw m d i tls = (Inr (conn, info), tr, tls')"
  shows "GetInfo w conn = Inr info \<and>
     NewClientWebsocketConn w m p = Inr (Some (Inr conn)) \<and>
     (\<exists>pre. tr = pre @ [EvStatusChecker, EvLndConnect, EvGetInfo conn]) \<and>
     (\<forall>c. EvClose c \<notin> set tr)"
  using assms
  by (cases rule: connectToLNC_cases [of w ctx now p pw m d i tls])
     (auto simp: opening_events_def)


lemma HandleConnect_success:
  assumes "HandleConnect w s args = (ToolResultText p, tr, s')"
  shows "\<exists>conn info. p = Connected info (mailboxServer_of w args) \<and>
           GetInfo w conn = Inr info \<and> Connection s' = Some conn \<and>
           EvGetInfo conn \<in> set tr \<and> (\<forall>c. EvClose c \<notin> set tr)"
proof -
  have v: "validates args"
  proof (rule ccontr)
    assume "\<not> validates args"
    from HandleConnect_rejected_trace [OF this, of w s] assms show False by simp
  qed
  obtain res tr0 tls where n: "negotiation w s args = (res, tr0, tls)"
    by (cases "negotiation w s args")
  show ?thesis
  proof (cases res)
    case (Inl e)
    from HandleConnect_failed [OF v n [unfolded Inl]] assms show ?thesis by simp
  next
    case (Inr ci)
    obtain c info where ci: "ci = (c, info)" by (cases ci)
    from connectToLNC_success [OF n [unfolded negotiation_def Inr ci]]
      HandleConnect_connected [OF v n [unfolded Inr ci]] assms
    show ?thesis by (auto split: option.splits)
  qed
qed

lemma third_event_preceded:
  "a # b # rest = pre @ e # post \<Longrightarrow> e \<noteq> a \<Longrightarrow> e \<noteq> b \<Longrightarrow> b \<in> set pre"
  by (cases pre; cases "tl pre") auto

lemma single_event_split:
  "pre @ e # post = [a] \<Longrightarrow> e = a"
  by (cases pre) auto

lemma connectToLNC_trace_shape:
  assumes "connectToLNC w ctx now p pw m d i tls = (r, tr, tls')"
  shows "(tr = [EvNewPrivateKey] \<and> tls' = tls \<and> (\<exists>e. r = Inl e) \<and> NewPrivateKey w \<noteq> None) \<or>
     (\<exists>rest. tr = opening_events (wantsInsecureTLS d i m) m p @ rest \<and>
        tls' = (if wantsInsecureTLS d i m then Some \<lparr>InsecureSkipVerify = True\<rparr> else tls) \<and>
        EvSetInsecureSkipVerify \<notin> set rest)"
  using assms
  by (cases rule: connectToLNC_cases [of w ctx now p pw m d i tls]) auto

lemma HandleConnect_trace_shape:
  assumes "HandleConnect w s args = (r, tr, s')"
  shows "(tr = [] \<and> s' = s \<and> \<not> validates args) \<or>
     (tr = [EvNewPrivateKey] \<and> TLSClientConfig s' = TLSClientConfig s \<and>
        NewPrivateKey w \<noteq> None) \<or>
     (\<exists>rest. tr = opening_events
          (wantsInsecureTLS (devMode_of w args) (insecure_of w args) (mailboxServer_of w args))
          (mailboxServer_of w args) (fst (as_string (args ''pairingPhrase''))) @ rest \<and>
        TLSClientConfig s' =
          (if wantsInsecureTLS (devMode_of w args) (insecure_of w args) (mailboxServer_of w args)
           then Some \<lparr>InsecureSkipVerify = True\<rparr> else TLSClientConfig s) \<and>
        EvSetInsecureSkipVerify \<notin> set rest)"
proof (cases "validates args")
  case False
  from HandleConnect_rejected_trace [OF False, of w s] assms False show ?thesis by simp
next
  case True
  obtain res tr0 tls where n: "negotiation w s args = (res, tr0, tls)"
    by (cases "negotiation w s args")
  note shape = connectToLNC_trace_shape [OF n [unfolded negotiation_def]]
  show ?thesis
  proof (cases res)
    case (Inl e)
    from HandleConnect_failed [OF True n [unfolded Inl]] assms
    have "tr = tr0" "s' = s\<lparr>TLSClientConfig := tls\<rparr>" by simp_all
    with shape show ?thesis by auto
  next
    case (Inr ci)
    obtain c info where ci: "ci = (c, info)" by (cases ci)
    from HandleConnect_connected [OF True n [unfolded Inr ci]] assms
    have "tr = tr0 @ (case ConnectionCallback s of None \<Rightarrow> []
              | Some callback \<Rightarrow> [EvConnectionCallback c])"
      "TLSClientConfig s' = tls" by simp_all
    with shape Inr show ?thesis by (auto split: option.splits)
  qed
qed

lemma HandleConnect_flagged:
  assumes "HandleConnect w s args = (r, tr, s')"
    and "wantsInsecureTLS (devMode_of w args) (insecure_of w args) (mailboxServer_of w args)"
    and "validates args" and "NewPrivateKey w = None"
  shows "(\<exists>rest. tr = EvNewPrivateKey # EvSetInsecureSkipVerify #
            EvNewClientWebsocketConn (mailboxServer_of w args)
              (fst (as_string (args ''pairingPhrase''))) # rest) \<and>
         TLSClientConfig s' = Some \<lparr>InsecureSkipVerify = True\<rparr>"
  using HandleConnect_trace_shape [OF assms(1)] assms(2,3,4)
  by (auto simp: opening_events_def)

subsection \<open>Runs on the concrete inputs\<close>

lemmas world_defs = calm_def silent_def deaf_def late_cancel_def dev_box_def dev_env_def
  no_env_def mailbox_up_def node_up_def node_silent_def close_ok_def close_fails_def alice_def

lemmas input_defs = fresh_def connected_before_def good_args_def connect_args_def ten_words_def
  InitializeServices_def

lemmas space_defs = TrimSpace_def trimLeft.simps trimRight.simps leadingSpace_def
  trailingSpace_def white_space_def

lemmas connect_defs = HandleConnect_def connectToLNC_def as_string_def as_bool_def
  space_defs Split_def
  mailboxServer_of_def getMailboxServer_def devMode_of_def insecure_of_def ParseBool_def
  wantsInsecureTLS_def HasPrefix_def opening_events_def graceWait_def New_def Let_def
  pollLoop.simps Done_def authReceived_def remotePub_set_def Err_def
  onLNCConnectionEstablished_def


lemma HandleConnect_replaces:
  "HandleConnect calm connected_before good_args =
     (ToolResultText (Connected alice ''mailbox.terminal.lightning.today:443''),
      [EvNewPrivateKey,
       EvNewClientWebsocketConn ''mailbox.terminal.lightning.today:443'' ten_words,
       EvPoll 3100, EvPoll 3300, EvPoll 3500, EvPoll 3700, EvStatusChecker,
       EvLndConnect, EvGetInfo 7, EvConnectionCallback 7],
      connected_before\<lparr>Connection := Some 7,
        manager := onLNCConnectionEstablished 7 InitializeServices\<rparr>)"
  by (simp add: connect_defs world_defs input_defs)

lemma HandleConnect_empty_password:
  "HandleConnect calm fresh (connect_args ten_words []) =
     (ToolResultText (Connected alice ''mailbox.terminal.lightning.today:443''),
      [EvNewPrivateKey,
       EvNewClientWebsocketConn ''mailbox.terminal.lightning.today:443'' ten_words,
       EvPoll 3100, EvPoll 3300, EvPoll 3500, EvPoll 3700, EvStatusChecker,
       EvLndConnect, EvGetInfo 7, EvConnectionCallback 7],
      fresh\<lparr>Connection := Some 7,
        manager := onLNCConnectionEstablished 7 InitializeServices\<rparr>)"
  by (simp add: connect_defs world_defs input_defs)

lemma extra_spaces_counts:
  "length (Fields extra_spaces) = 10 \<and> length (Split (TrimSpace extra_spaces)) = 13"
  by (simp add: extra_spaces_def Fields_def fields_acc.simps Split_def space_defs)

lemma tab_joined_counts:
  "length (Fields tab_joined) = 11 \<and> length (Split (TrimSpace tab_joined)) = 10"
  by (simp add: tab_joined_def Fields_def fields_acc.simps Split_def space_defs)

lemma connectToLNC_password:
  "connectToLNC w ctx now p password m d i tls = connectToLNC w ctx now p [] m d i tls"
  by (simp add: connectToLNC_def)

lemma parameters_password:
  "mailboxServer_of w (args(''password'' \<mapsto> v)) = mailboxServer_of w args"
  "devMode_of w (args(''password'' \<mapsto> v)) = devMode_of w args"
  "insecure_of w (args(''password'' \<mapsto> v)) = insecure_of w args"
  by (simp_all add: mailboxServer_of_def getMailboxServer_def devMode_of_def insecure_of_def)

lemma password_ignored:
  assumes "args ''password'' = Some (JString password)"
  shows "HandleConnect w s args = HandleConnect w s (args(''password'' \<mapsto> JString []))"
proof -
  have a: "as_string (args ''password'') = (password, True)"
    using assms by (simp add: as_string_def)
  have b: "as_string ((args(''password'' \<mapsto> JString [])) ''password'') = ([], True)"
    by (simp add: as_string_def)
  have c: "(args(''password'' \<mapsto> JString [])) ''pairingPhrase'' = args ''pairingPhrase''"
    by simp
  show ?thesis
    unfolding HandleConnect_def Let_def case_prod_beta a b c parameters_password fst_conv snd_conv
      connectToLNC_password [of _ _ _ _ password]
    by (rule refl)
qed

lemma HandleConnect_calm:
  "HandleConnect calm fresh good_args =
     (ToolResultText (Connected alice ''mailbox.terminal.lightning.today:443''),
      [EvNewPrivateKey,
       EvNewClientWebsocketConn ''mailbox.terminal.lightning.today:443'' ten_words,
       EvPoll 3100, EvPoll 3300, EvPoll 3500, EvPoll 3700, EvStatusChecker,
       EvLndConnect, EvGetInfo 7, EvConnectionCallback 7],
      fresh\<lparr>Connection := Some 7,
        manager := onLNCConnectionEstablished 7 InitializeServices\<rparr>)"
  by (simp add: connect_defs world_defs input_defs)

lemma HandleConnect_loopback:
  "HandleConnect calm fresh loopback_args =
     (ToolResultText (Connected alice ''127.0.0.1:11110''),
      [EvNewPrivateKey, EvSetInsecureSkipVerify,
       EvNewClientWebsocketConn ''127.0.0.1:11110'' ten_words,
       EvPoll 3100, EvPoll 3300, EvPoll 3500, EvPoll 3700, EvStatusChecker,
       EvLndConnect, EvGetInfo 7, EvConnectionCallback 7],
      fresh\<lparr>Connection := Some 7,
        manager := onLNCConnectionEstablished 7 InitializeServices,
        TLSClientConfig := Some \<lparr>InsecureSkipVerify = True\<rparr>\<rparr>)"
  by (simp add: connect_defs world_defs input_defs loopback_args_def)

lemma pollLoop_deaf:
  "pollLoop deaf (New None 0 45000) 3100 3100 = (all_polls, Elapsed 8100)"
  by (simp add: pollLoop.simps world_defs New_def Done_def authReceived_def remotePub_set_def
      all_polls_def)

lemma pollLoop_late_cancel:
  "pollLoop late_cancel (New (Some (7950, Canceled)) 0 45000) 3100 3100 =
     (all_polls, Elapsed 8100)"
  by (simp add: pollLoop.simps world_defs New_def Done_def authReceived_def remotePub_set_def
      all_polls_def)

lemma HandleConnect_late_cancel:
  "HandleConnect late_cancel fresh good_args =
     (ToolResultError (''Failed to connect to Lightning node: '' @
        ''connected but failed to get node info: '' @
        ''rpc error: code = Canceled desc = context canceled''),
      [EvNewPrivateKey,
       EvNewClientWebsocketConn ''mailbox.terminal.lightning.today:443'' ten_words] @
      map EvPoll all_polls @ [EvStatusChecker, EvLndConnect, EvGetInfo 7, EvClose 7],
      fresh)"
  by (simp add: connect_defs world_defs input_defs all_polls_def)

lemma connectToLNC_deaf:
  "connectToLNC deaf (New None 0 45000) 0 ten_words ''hunter2''
      ''mailbox.terminal.lightning.today:443'' False False None =
     (Inr (7, alice),
      [EvNewPrivateKey,
       EvNewClientWebsocketConn ''mailbox.terminal.lightning.today:443'' ten_words] @
      map EvPoll all_polls @ [EvStatusChecker, EvLndConnect, EvGetInfo 7],
      None)"
  by (simp add: connect_defs world_defs input_defs all_polls_def)

lemma good_args_validates: "validates good_args"
  by (simp add: validates_def input_defs as_string_def space_defs Split_def)

lemma flagged_args_validate:
  "validates loopback_args" "validates localhost_args" "validates dev_args"
  "validates insecure_args"
  using good_args_validates
  by (simp_all add: validates_def loopback_args_def localhost_args_def dev_args_def
      insecure_args_def)

lemma nbsp_trimmed:
  "length (Split (TrimSpace ([CHR 0xC2, CHR 0xA0] @ '' '' @ ten_words))) = 10"
  by (simp add: ten_words_def space_defs Split_def)

lemma HandleConnect_localhost:
  "HandleConnect calm fresh localhost_args =
     (ToolResultText (Connected alice ''localhost:11110''),
      [EvNewPrivateKey, EvSetInsecureSkipVerify,
       EvNewClientWebsocketConn ''localhost:11110'' ten_words,
       EvPoll 3100, EvPoll 3300, EvPoll 3500, EvPoll 3700, EvStatusChecker,
       EvLndConnect, EvGetInfo 7, EvConnectionCallback 7],
      fresh\<lparr>Connection := Some 7,
        manager := onLNCConnectionEstablished 7 InitializeServices,
        TLSClientConfig := Some \<lparr>InsecureSkipVerify = True\<rparr>\<rparr>)"
  by (simp add: connect_defs world_defs input_defs localhost_args_def)

lemma HandleConnect_dev:
  "HandleConnect calm fresh dev_args =
     (ToolResultText (Connected alice ''mailbox.terminal.lightning.today:443''),
      [EvNewPrivateKey, EvSetInsecureSkipVerify,
       EvNewClientWebsocketConn ''mailbox.terminal.lightning.today:443'' ten_words,
       EvPoll 3100, EvPoll 3300, EvPoll 3500, EvPoll 3700, EvStatusChecker,
       EvLndConnect, EvGetInfo 7, EvConnectionCallback 7],
      fresh\<lparr>Connection := Some 7,
        manager := onLNCConnectionEstablished 7 InitializeServices,
        TLSClientConfig := Some \<lparr>InsecureSkipVerify = True\<rparr>\<rparr>)"
  by (simp add: connect_defs world_defs input_defs dev_args_def)

lemma HandleConnect_insecure:
  "HandleConnect calm fresh insecure_args =
     (ToolResultText (Connected alice ''mailbox.terminal.lightning.today:443''),
      [EvNewPrivateKey, EvSetInsecureSkipVerify,
       EvNewClientWebsocketConn ''mailbox.terminal.lightning.today:443'' ten_words,
       EvPoll 3100, EvPoll 3300, EvPoll 3500, EvPoll 3700, EvStatusChecker,
       EvLndConnect, EvGetInfo 7, EvConnectionCallback 7],
      fresh\<lparr>Connection := Some 7,
        manager := onLNCConnectionEstablished 7 InitializeServices,
        TLSClientConfig := Some \<lparr>InsecureSkipVerify = True\<rparr>\<rparr>)"
  by (simp add: connect_defs world_defs input_defs insecure_args_def)

lemma HandleConnect_dev_env:
  "HandleConnect dev_box fresh good_args =
     (ToolResultText (Connected alice ''mailbox.terminal.lightning.today:443''),
      [EvNewPrivateKey, EvSetInsecureSkipVerify,
       EvNewClientWebsocketConn ''mailbox.terminal.lightning.today:443'' ten_words,
       EvPoll 3100, EvPoll 3300, EvPoll 3500, EvPoll 3700, EvStatusChecker,
       EvLndConnect, EvGetInfo 7, EvConnectionCallback 7],
      fresh\<lparr>Connection := Some 7,
        manager := onLNCConnectionEstablished 7 InitializeServices,
        TLSClientConfig := Some \<lparr>InsecureSkipVerify = True\<rparr>\<rparr>)"
  by (simp add: connect_defs world_defs input_defs)

lemma flags_of_inputs:
  "HasPrefix (mailboxServer_of calm loopback_args) ''127.0.0.1''"
  "HasPrefix (mailboxServer_of calm localhost_args) ''localhost''"
  "devMode_of calm dev_args"
  "insecure_of calm insecure_args"
  "devMode_of dev_box good_args"
  "\<not> (devMode_of calm good_args \<or> insecure_of calm good_args \<or>
      HasPrefix (mailboxServer_of calm good_args) ''localhost'' \<or>
      HasPrefix (mailboxServer_of calm good_args) ''127.0.0.1'')"
  by (simp_all add: mailboxServer_of_def getMailboxServer_def devMode_of_def insecure_of_def
      as_bool_def ParseBool_def HasPrefix_def loopback_args_def localhost_args_def dev_args_def
      insecure_args_def good_args_def connect_args_def world_defs)

subsection \<open>A tunnel whose node does not answer\<close>



subsection \<open>A connect that replaces an earlier connection\<close>

text \<open>
  C2, as the code has it. When a connect operation succeeds, the handle on which the
  liveness call was answered becomes the stored handle, replacing whatever was stored,
  and the operation closes no handle: a handle stored before is dropped without being
  closed.
\<close>

theorem connect_replaces_without_closing:
  assumes "HandleConnect w s args = (ToolResultText p, tr, s')"
  shows "\<exists>conn info. p = Connected info (mailboxServer_of w args) \<and>
           GetInfo w conn = Inr info \<and> Connection s' = Some conn \<and>
           EvGetInfo conn \<in> set tr \<and> (\<forall>c. EvClose c \<notin> set tr)"
  using assms by (rule HandleConnect_success)

theorem connect_replaces_without_closing_witness:
  "HandleConnect calm connected_before good_args =
     (ToolResultText (Connected alice ''mailbox.terminal.lightning.today:443''),
      [EvNewPrivateKey,
       EvNewClientWebsocketConn ''mailbox.terminal.lightning.today:443'' ten_words,
       EvPoll 3100, EvPoll 3300, EvPoll 3500, EvPoll 3700, EvStatusChecker,
       EvLndConnect, EvGetInfo 7, EvConnectionCallback 7],
      connected_before\<lparr>Connection := Some 7,
        manager := onLNCConnectionEstablished 7 InitializeServices\<rparr>) \<and>
   (\<exists>conn info.
      Connected alice ''mailbox.terminal.lightning.today:443'' =
        Connected info (mailboxServer_of calm good_args) \<and>
      GetInfo calm conn = Inr info \<and>
      Connection (connected_before\<lparr>Connection := Some 7,
        manager := onLNCConnectionEstablished 7 InitializeServices\<rparr>) = Some conn \<and>
      EvGetInfo conn \<in> set [EvNewPrivateKey,
        EvNewClientWebsocketConn ''mailbox.terminal.lightning.today:443'' ten_words,
        EvPoll 3100, EvPoll 3300, EvPoll 3500, EvPoll 3700, EvStatusChecker,
        EvLndConnect, EvGetInfo 7, EvConnectionCallback 7] \<and>
      (\<forall>c. EvClose c \<notin> set [EvNewPrivateKey,
        EvNewClientWebsocketConn ''mailbox.terminal.lightning.today:443'' ten_words,
        EvPoll 3100, EvPoll 3300, EvPoll 3500, EvPoll 3700, EvStatusChecker,
        EvLndConnect, EvGetInfo 7, EvConnectionCallback 7]))"
  using HandleConnect_replaces connect_replaces_without_closing [OF HandleConnect_replaces]
  by (rule conjI)

text \<open>
  C2 as stated fails: the process holds connection 3, a connect succeeds and stores
  connection 7, and connection 3 was never closed.
\<close>

theorem previous_handle_not_closed:
  "Connection connected_before = Some 3 \<and>
   fst (HandleConnect calm connected_before good_args) =
     ToolResultText (Connected alice ''mailbox.terminal.lightning.today:443'') \<and>
   Connection (snd (snd (HandleConnect calm connected_before good_args))) = Some 7 \<and>
   EvClose 3 \<notin> set (fst (snd (HandleConnect calm connected_before good_args)))"
proof -
  have "Connection connected_before = Some 3"
    by (simp add: connected_before_def fresh_def)
  then show ?thesis
    by (simp add: HandleConnect_replaces)
qed

subsection \<open>Validation of the pairing phrase and of the password\<close>

text \<open>
  C1. The claim is that validation passes exactly when the phrase has 10 tokens, irregular
  white space being normalised. The handler instead splits the trimmed phrase at every
  single space. On the test's own phrase with extra spaces, which has 10 tokens, the
  handler counts 13 pieces and rejects the request before any relay interaction; on a
  phrase of 11 tokens whose first two are separated by a tab it counts 10 pieces and
  goes on to negotiate.
\<close>

theorem irregular_whitespace_miscounted:
  "pairingPhraseValid_test extra_spaces \<and>
   HandleConnect w s (connect_args extra_spaces password) =
     (ToolResultError ''pairingPhrase must contain exactly 10 words'', [], s) \<and>
   \<not> pairingPhraseValid_test tab_joined \<and>
   validates (connect_args tab_joined password) \<and>
   fst (snd (HandleConnect calm fresh (connect_args tab_joined ''hunter2''))) =
     [EvNewPrivateKey,
      EvNewClientWebsocketConn ''mailbox.terminal.lightning.today:443'' tab_joined,
      EvPoll 3100, EvPoll 3300, EvPoll 3500, EvPoll 3700, EvStatusChecker,
      EvLndConnect, EvGetInfo 7, EvConnectionCallback 7]"
proof -
  have a: "pairingPhraseValid_test extra_spaces"
    using extra_spaces_counts by (simp add: pairingPhraseValid_test_def)
  have b: "HandleConnect w s (connect_args extra_spaces password) =
     (ToolResultError ''pairingPhrase must contain exactly 10 words'', [], s)"
    using extra_spaces_counts
    by (intro HandleConnect_word_count) (simp_all add: connect_args_def as_string_def)
  have c: "\<not> pairingPhraseValid_test tab_joined"
    using tab_joined_counts by (simp add: pairingPhraseValid_test_def)
  have d: "validates (connect_args tab_joined password)"
    using tab_joined_counts by (simp add: validates_def connect_args_def as_string_def)
  have e: "fst (snd (HandleConnect calm fresh (connect_args tab_joined ''hunter2''))) =
     [EvNewPrivateKey,
      EvNewClientWebsocketConn ''mailbox.terminal.lightning.today:443'' tab_joined,
      EvPoll 3100, EvPoll 3300, EvPoll 3500, EvPoll 3700, EvStatusChecker,
      EvLndConnect, EvGetInfo 7, EvConnectionCallback 7]"
    by (simp add: connect_defs world_defs input_defs tab_joined_def)
  from a b c d e show ?thesis by blast
qed

text \<open>
  C8, as the code has it. The password must be present and be a string: when the pairing
  phrase is a string and the password is missing or is not a string, the request fails
  with "password is required" before any relay interaction. The string itself is not
  inspected: a request behaves exactly as the same request with the empty password.
\<close>

theorem password_presence_only:
  "(snd (as_string (args ''pairingPhrase'')) \<longrightarrow> \<not> snd (as_string (args ''password'')) \<longrightarrow>
      HandleConnect w s args = (ToolResultError ''password is required'', [], s)) \<and>
   (\<forall>password. args ''password'' = Some (JString password) \<longrightarrow>
      HandleConnect w s args = HandleConnect w s (args(''password'' \<mapsto> JString [])))"
  using HandleConnect_no_password [of args w s] password_ignored [of args _ w s]
  by blast

theorem password_presence_only_witness:
  "snd (as_string (no_password_args ''pairingPhrase'')) \<and>
   \<not> snd (as_string (no_password_args ''password'')) \<and>
   HandleConnect calm fresh no_password_args =
     (ToolResultError ''password is required'', [], fresh) \<and>
   good_args ''password'' = Some (JString ''hunter2'') \<and>
   HandleConnect calm fresh good_args =
     HandleConnect calm fresh (good_args(''password'' \<mapsto> JString []))"
proof -
  have a: "snd (as_string (no_password_args ''pairingPhrase''))"
    by (simp add: no_password_args_def as_string_def)
  have b: "\<not> snd (as_string (no_password_args ''password''))"
    by (simp add: no_password_args_def as_string_def)
  have c: "good_args ''password'' = Some (JString ''hunter2'')"
    by (simp add: good_args_def connect_args_def)
  from password_presence_only [of no_password_args calm fresh] a b
  have d: "HandleConnect calm fresh no_password_args =
      (ToolResultError ''password is required'', [], fresh)"
    by blast
  from password_presence_only [of good_args calm fresh] c
  have e: "HandleConnect calm fresh good_args =
      HandleConnect calm fresh (good_args(''password'' \<mapsto> JString []))"
    by blast
  from a b c d e show ?thesis by blast
qed

text \<open>
  C8 as stated fails: a request with ten words and the empty password passes validation,
  the relay session is opened and the connect succeeds.
\<close>

theorem empty_password_accepted:
  "fst (HandleConnect calm fresh (connect_args ten_words [])) =
     ToolResultText (Connected alice ''mailbox.terminal.lightning.today:443'') \<and>
   EvNewClientWebsocketConn ''mailbox.terminal.lightning.today:443'' ten_words \<in>
     set (fst (snd (HandleConnect calm fresh (connect_args ten_words []))))"
  by (simp add: HandleConnect_empty_password)

subsection \<open>Certificate validation of the default HTTP transport\<close>

text \<open>
  C5. Take a connect request with its effective parameters (arguments, else environment,
  else defaults). If the mailbox address starts with "localhost" or "127.0.0.1", or dev
  mode or insecure mode is set, then a call that gets as far as opening the relay session
  (the request passes validation and the session key is generated) generates the key,
  sets \<open>InsecureSkipVerify\<close> on the default HTTP transport and only then opens the
  session, and the transport is left in that configuration; no opening of the session
  ever comes before the setting. For every other request the call leaves the TLS
  configuration of the default transport as it found it.
\<close>

theorem tls_verification_disabled_only_when_asked:
  assumes "HandleConnect w s args = (r, tr, s')"
  shows "(devMode_of w args \<or> insecure_of w args \<or>
        HasPrefix (mailboxServer_of w args) ''localhost'' \<or>
        HasPrefix (mailboxServer_of w args) ''127.0.0.1'' \<longrightarrow>
      (validates args \<longrightarrow> NewPrivateKey w = None \<longrightarrow>
         (\<exists>rest. tr = EvNewPrivateKey # EvSetInsecureSkipVerify #
            EvNewClientWebsocketConn (mailboxServer_of w args)
              (fst (as_string (args ''pairingPhrase''))) # rest) \<and>
         TLSClientConfig s' = Some \<lparr>InsecureSkipVerify = True\<rparr>) \<and>
      (\<forall>pre m p post. tr = pre @ EvNewClientWebsocketConn m p # post \<longrightarrow>
         EvSetInsecureSkipVerify \<in> set pre \<and>
         TLSClientConfig s' = Some \<lparr>InsecureSkipVerify = True\<rparr>)) \<and>
     (\<not> (devMode_of w args \<or> insecure_of w args \<or>
         HasPrefix (mailboxServer_of w args) ''localhost'' \<or>
         HasPrefix (mailboxServer_of w args) ''127.0.0.1'') \<longrightarrow>
        TLSClientConfig s' = TLSClientConfig s \<and> EvSetInsecureSkipVerify \<notin> set tr)"
proof (intro conjI impI allI)
  assume "devMode_of w args \<or> insecure_of w args \<or>
        HasPrefix (mailboxServer_of w args) ''localhost'' \<or>
        HasPrefix (mailboxServer_of w args) ''127.0.0.1''"
  then have relaxed:
    "wantsInsecureTLS (devMode_of w args) (insecure_of w args) (mailboxServer_of w args)"
    by (simp add: wantsInsecureTLS_def)
  {
    assume "validates args" and "NewPrivateKey w = None"
    from HandleConnect_flagged [OF assms relaxed this]
    show "\<exists>rest. tr = EvNewPrivateKey # EvSetInsecureSkipVerify #
            EvNewClientWebsocketConn (mailboxServer_of w args)
              (fst (as_string (args ''pairingPhrase''))) # rest"
      and "TLSClientConfig s' = Some \<lparr>InsecureSkipVerify = True\<rparr>"
      by simp_all
  }
  fix pre m p post
  assume split: "tr = pre @ EvNewClientWebsocketConn m p # post"
  from HandleConnect_trace_shape [OF assms] split relaxed
  obtain rest where tr: "tr = EvNewPrivateKey # EvSetInsecureSkipVerify #
        (EvNewClientWebsocketConn (mailboxServer_of w args)
           (fst (as_string (args ''pairingPhrase''))) # rest)"
    and tls: "TLSClientConfig s' = Some \<lparr>InsecureSkipVerify = True\<rparr>"
    by (auto simp: opening_events_def dest: single_event_split)
  from third_event_preceded [OF tr [unfolded split, symmetric]]
  show "EvSetInsecureSkipVerify \<in> set pre" by simp
  from tls show "TLSClientConfig s' = Some \<lparr>InsecureSkipVerify = True\<rparr>" .
next
  assume "\<not> (devMode_of w args \<or> insecure_of w args \<or>
         HasPrefix (mailboxServer_of w args) ''localhost'' \<or>
         HasPrefix (mailboxServer_of w args) ''127.0.0.1'')"
  then have strict:
    "\<not> wantsInsecureTLS (devMode_of w args) (insecure_of w args) (mailboxServer_of w args)"
    by (simp add: wantsInsecureTLS_def)
  from HandleConnect_trace_shape [OF assms] strict
  show "TLSClientConfig s' = TLSClientConfig s" by auto
  from HandleConnect_trace_shape [OF assms] strict
  show "EvSetInsecureSkipVerify \<notin> set tr" by (auto simp: opening_events_def)
qed

theorem tls_verification_disabled_only_when_asked_witness:
  "HasPrefix (mailboxServer_of calm loopback_args) ''127.0.0.1'' \<and>
   validates loopback_args \<and> NewPrivateKey calm = None \<and>
   HandleConnect calm fresh loopback_args =
     (ToolResultText (Connected alice ''127.0.0.1:11110''),
      [EvNewPrivateKey, EvSetInsecureSkipVerify,
       EvNewClientWebsocketConn ''127.0.0.1:11110'' ten_words,
       EvPoll 3100, EvPoll 3300, EvPoll 3500, EvPoll 3700, EvStatusChecker,
       EvLndConnect, EvGetInfo 7, EvConnectionCallback 7],
      fresh\<lparr>Connection := Some 7,
        manager := onLNCConnectionEstablished 7 InitializeServices,
        TLSClientConfig := Some \<lparr>InsecureSkipVerify = True\<rparr>\<rparr>) \<and>
   EvSetInsecureSkipVerify \<in> set [EvNewPrivateKey, EvSetInsecureSkipVerify] \<and>
   HasPrefix (mailboxServer_of calm localhost_args) ''localhost'' \<and>
   validates localhost_args \<and>
   TLSClientConfig (snd (snd (HandleConnect calm fresh localhost_args))) =
     Some \<lparr>InsecureSkipVerify = True\<rparr> \<and>
   devMode_of calm dev_args \<and> validates dev_args \<and>
   TLSClientConfig (snd (snd (HandleConnect calm fresh dev_args))) =
     Some \<lparr>InsecureSkipVerify = True\<rparr> \<and>
   insecure_of calm insecure_args \<and> validates insecure_args \<and>
   TLSClientConfig (snd (snd (HandleConnect calm fresh insecure_args))) =
     Some \<lparr>InsecureSkipVerify = True\<rparr> \<and>
   devMode_of dev_box good_args \<and> validates good_args \<and> NewPrivateKey dev_box = None \<and>
   TLSClientConfig (snd (snd (HandleConnect dev_box fresh good_args))) =
     Some \<lparr>InsecureSkipVerify = True\<rparr> \<and>
   \<not> (devMode_of calm good_args \<or> insecure_of calm good_args \<or>
      HasPrefix (mailboxServer_of calm good_args) ''localhost'' \<or>
      HasPrefix (mailboxServer_of calm good_args) ''127.0.0.1'') \<and>
   TLSClientConfig (snd (snd (HandleConnect calm fresh good_args))) = TLSClientConfig fresh \<and>
   EvSetInsecureSkipVerify \<notin> set (fst (snd (HandleConnect calm fresh good_args)))"
proof -
  have key: "NewPrivateKey calm = None" "NewPrivateKey dev_box = None"
    by (simp_all add: dev_box_def calm_def)
  note v = flagged_args_validate good_args_validates
  note f = flags_of_inputs
  from tls_verification_disabled_only_when_asked [OF HandleConnect_loopback] f(1) v(1) key(1)
  have "\<forall>pre m p post.
      [EvNewPrivateKey, EvSetInsecureSkipVerify,
       EvNewClientWebsocketConn ''127.0.0.1:11110'' ten_words,
       EvPoll 3100, EvPoll 3300, EvPoll 3500, EvPoll 3700, EvStatusChecker,
       EvLndConnect, EvGetInfo 7, EvConnectionCallback 7] =
        pre @ EvNewClientWebsocketConn m p # post \<longrightarrow>
      EvSetInsecureSkipVerify \<in> set pre"
    by blast
  from this [rule_format, of "[EvNewPrivateKey, EvSetInsecureSkipVerify]"
      "''127.0.0.1:11110''" ten_words
      "[EvPoll 3100, EvPoll 3300, EvPoll 3500, EvPoll 3700, EvStatusChecker,
        EvLndConnect, EvGetInfo 7, EvConnectionCallback 7]"]
  have one: "EvSetInsecureSkipVerify \<in> set [EvNewPrivateKey, EvSetInsecureSkipVerify]"
    by simp
  from tls_verification_disabled_only_when_asked [OF HandleConnect_localhost] f(2) v(2) key(1)
  have two: "TLSClientConfig (snd (snd (HandleConnect calm fresh localhost_args))) =
      Some \<lparr>InsecureSkipVerify = True\<rparr>"
    unfolding HandleConnect_localhost snd_conv by blast
  from tls_verification_disabled_only_when_asked [OF HandleConnect_dev] f(3) v(3) key(1)
  have three: "TLSClientConfig (snd (snd (HandleConnect calm fresh dev_args))) =
      Some \<lparr>InsecureSkipVerify = True\<rparr>"
    unfolding HandleConnect_dev snd_conv by blast
  from tls_verification_disabled_only_when_asked [OF HandleConnect_insecure] f(4) v(4) key(1)
  have four: "TLSClientConfig (snd (snd (HandleConnect calm fresh insecure_args))) =
      Some \<lparr>InsecureSkipVerify = True\<rparr>"
    unfolding HandleConnect_insecure snd_conv by blast
  from tls_verification_disabled_only_when_asked [OF HandleConnect_dev_env] f(5) v(5) key(2)
  have five: "TLSClientConfig (snd (snd (HandleConnect dev_box fresh good_args))) =
      Some \<lparr>InsecureSkipVerify = True\<rparr>"
    unfolding HandleConnect_dev_env snd_conv by blast
  from tls_verification_disabled_only_when_asked [OF HandleConnect_calm] f(6)
  have six: "TLSClientConfig (snd (snd (HandleConnect calm fresh good_args))) =
        TLSClientConfig fresh \<and>
      EvSetInsecureSkipVerify \<notin> set (fst (snd (HandleConnect calm fresh good_args)))"
    unfolding HandleConnect_calm snd_conv fst_conv by blast
  from key v f one two three four five six HandleConnect_loopback
  show ?thesis by blast
qed

subsection \<open>Disconnecting\<close>

text \<open>
  C10. The disconnect operation always returns the success result and leaves the stored
  connection reference nil. When a handle is stored it is closed and the reference is
  cleared whatever \<open>Close\<close> returns (an error of \<open>Close\<close> is only logged); when no handle
  is stored nothing is closed and the state is left as it was.
\<close>

theorem HandleDisconnect_always_succeeds:
  "fst (HandleDisconnect w s) = ToolResultText Disconnected \<and>
   Connection (snd (snd (snd (HandleDisconnect w s)))) = None \<and>
   (\<forall>conn. Connection s = Some conn \<longrightarrow>
      fst (snd (HandleDisconnect w s)) = [EvClose conn] \<and>
      snd (snd (snd (HandleDisconnect w s))) = s\<lparr>Connection := None\<rparr>) \<and>
   (Connection s = None \<longrightarrow>
      fst (snd (HandleDisconnect w s)) = [] \<and> snd (snd (snd (HandleDisconnect w s))) = s)"
  by (simp add: HandleDisconnect_def split: option.split)

theorem HandleDisconnect_always_succeeds_witness:
  "Connection (fresh\<lparr>Connection := Some 7\<rparr>) = Some 7 \<and>
   Close (calm\<lparr>Close := close_fails\<rparr>) 7 \<noteq> None \<and>
   fst (HandleDisconnect (calm\<lparr>Close := close_fails\<rparr>) (fresh\<lparr>Connection := Some 7\<rparr>)) =
     ToolResultText Disconnected \<and>
   fst (snd (HandleDisconnect (calm\<lparr>Close := close_fails\<rparr>) (fresh\<lparr>Connection := Some 7\<rparr>))) =
     [EvClose 7] \<and>
   Connection (snd (snd (snd (HandleDisconnect (calm\<lparr>Close := close_fails\<rparr>)
     (fresh\<lparr>Connection := Some 7\<rparr>))))) = None \<and>
   Connection fresh = None \<and>
   fst (snd (HandleDisconnect calm fresh)) = [] \<and>
   snd (snd (snd (HandleDisconnect calm fresh))) = fresh"
  using HandleDisconnect_always_succeeds [of "calm\<lparr>Close := close_fails\<rparr>"
          "fresh\<lparr>Connection := Some 7\<rparr>"]
        HandleDisconnect_always_succeeds [of calm fresh]
  by (simp add: fresh_def calm_def close_fails_def)

subsection \<open>The query services without a client\<close>

text \<open>
  C6. Every operation of the query services (node, invoices, channels, payments, on-chain,
  peers) whose Lightning client is nil returns the same "not connected" error result and
  sends no request.
\<close>

theorem not_connected_without_client:
  "HandleGetInfo rpc None args = (not_connected, []) \<and>
   HandleGetBalance rpc None args = (not_connected, []) \<and>
   HandleDecodeInvoice rpc None args = (not_connected, []) \<and>
   HandleListInvoices pf rpc None args = (not_connected, []) \<and>
   HandleLookupInvoice rpc None args = (not_connected, []) \<and>
   HandleListChannels rpc None args = (not_connected, []) \<and>
   HandlePendingChannels rpc None args = (not_connected, []) \<and>
   HandleListPayments pf rpc None args = (not_connected, []) \<and>
   HandleTrackPayment rpc None args = (not_connected, []) \<and>
   HandleListUnspent pf rpc None args = (not_connected, []) \<and>
   HandleGetTransactions pf rpc None args = (not_connected, []) \<and>
   HandleEstimateFee pf rpc None args = (not_connected, []) \<and>
   HandleListPeers rpc None args = (not_connected, []) \<and>
   HandleDescribeGraph rpc None args = (not_connected, []) \<and>
   HandleGetNodeInfo rpc None args = (not_connected, []) \<and>
   not_connected =
     ToolResultError ''Not connected to Lightning node. Use lnc_connect first.''"
  by (simp add: HandleGetInfo_def HandleGetBalance_def HandleDecodeInvoice_def
      HandleListInvoices_def HandleLookupInvoice_def HandleListChannels_def
      HandlePendingChannels_def HandleListPayments_def HandleTrackPayment_def
      HandleListUnspent_def HandleGetTransactions_def HandleEstimateFee_def
      HandleListPeers_def HandleDescribeGraph_def HandleGetNodeInfo_def not_connected_def)

end
